theory Spec2Isabelle
  imports Complex_Main
begin

section \<open>Python values\<close>

text \<open>
  The gateway handles JSON documents as Python objects (the result of \<^verbatim>\<open>json.loads\<close>):
  \<^verbatim>\<open>None\<close>, \<^verbatim>\<open>bool\<close>, \<^verbatim>\<open>int\<close>, \<^verbatim>\<open>float\<close>, \<^verbatim>\<open>str\<close>, \<^verbatim>\<open>list\<close> and \<^verbatim>\<open>dict\<close> with string
  keys. A dict is an association list in insertion order; a lookup takes the first entry
  of a key (keys of a parsed document are unique).
\<close>

datatype json =
    JNull
  | JBool bool
  | JInt int
  | JFloat real
  | JStr string
  | JList "json list"
  | JDict "(string \<times> json) list"

text \<open>Python truthiness (\<^verbatim>\<open>if x\<close>, \<^verbatim>\<open>not x\<close>, \<^verbatim>\<open>x or y\<close>).\<close>

fun truthy :: "json \<Rightarrow> bool" where
  "truthy JNull = False"
| "truthy (JBool b) = b"
| "truthy (JInt i) = (i \<noteq> 0)"
| "truthy (JFloat r) = (r \<noteq> 0)"
| "truthy (JStr s) = (s \<noteq> [])"
| "truthy (JList xs) = (xs \<noteq> [])"
| "truthy (JDict kvs) = (kvs \<noteq> [])"

text \<open>Truthiness of an \<^verbatim>\<open>Optional[str]\<close>: \<^verbatim>\<open>None\<close> and \<^verbatim>\<open>""\<close> are falsy.\<close>

fun truthy_str :: "string option \<Rightarrow> bool" where
  "truthy_str None = False"
| "truthy_str (Some s) = (s \<noteq> [])"

text \<open>Truthiness of an \<^verbatim>\<open>Optional[dict]\<close> held by an object: \<^verbatim>\<open>None\<close> and \<^verbatim>\<open>{}\<close> are falsy.\<close>

fun truthy_opt :: "json option \<Rightarrow> bool" where
  "truthy_opt None = False"
| "truthy_opt (Some v) = truthy v"

subsection \<open>Strings\<close>

definition startswith :: "string \<Rightarrow> string \<Rightarrow> bool" where
  "startswith s p = (take (length p) s = p)"

text \<open>\<^verbatim>\<open>s.split(c, 1)\<close> for a string \<open>s\<close> that contains \<open>c\<close>: the parts before and after
  the first \<open>c\<close>; \<^verbatim>\<open>s.rsplit(c, 1)\<close>: the parts before and after the last \<open>c\<close>.\<close>

definition split_first :: "char \<Rightarrow> string \<Rightarrow> string \<times> string" where
  "split_first c s = (takeWhile (\<lambda>x. x \<noteq> c) s, drop 1 (dropWhile (\<lambda>x. x \<noteq> c) s))"

definition rsplit_last :: "char \<Rightarrow> string \<Rightarrow> string \<times> string" where
  "rsplit_last c s =
     (rev (drop 1 (dropWhile (\<lambda>x. x \<noteq> c) (rev s))), rev (takeWhile (\<lambda>x. x \<noteq> c) (rev s)))"

text \<open>\<^verbatim>\<open>s.split(c)\<close>: all the parts between the occurrences of \<open>c\<close> (one part, \<open>s\<close>
  itself, when there is none).\<close>

fun split_all :: "char \<Rightarrow> string \<Rightarrow> string list" where
  "split_all c [] = [[]]"
| "split_all c (x # xs) =
     (if x = c then [] # split_all c xs
      else (case split_all c xs of
              [] \<Rightarrow> [[x]]
            | p # ps \<Rightarrow> (x # p) # ps))"

text \<open>\<^verbatim>\<open>s.replace("-", "_")\<close>.\<close>

definition dash_to_underscore :: "string \<Rightarrow> string" where
  "dash_to_underscore s = map (\<lambda>x. if x = CHR ''-'' then CHR ''_'' else x) s"

text \<open>\<^verbatim>\<open>s.replace(old, "")\<close> for a non-empty \<open>old\<close>: every occurrence of \<open>old\<close>, found
  from the left and not overlapping, is removed.\<close>

fun remove_all :: "string \<Rightarrow> string \<Rightarrow> string" where
  "remove_all old [] = []"
| "remove_all old (x # xs) =
     (if old \<noteq> [] \<and> take (length old) (x # xs) = old
      then remove_all old (drop (length old) (x # xs))
      else x # remove_all old xs)"

text \<open>\<^verbatim>\<open>str(n)\<close> of an int, as the f-string \<^verbatim>\<open>f"... {code} ..."\<close> prints it.\<close>

definition digit_char :: "nat \<Rightarrow> char" where
  "digit_char d = ''0123456789'' ! d"

fun str_nat :: "nat \<Rightarrow> string" where
  "str_nat n = (if n < 10 then [digit_char n] else str_nat (n div 10) @ [digit_char (n mod 10)])"

definition str_int :: "int \<Rightarrow> string" where
  "str_int i = (if i < 0 then CHR ''-'' # str_nat (nat (- i)) else str_nat (nat i))"

text \<open>\<^verbatim>\<open>", ".join(xs)\<close>.\<close>

fun join_comma :: "string list \<Rightarrow> string" where
  "join_comma [] = []"
| "join_comma [x] = x"
| "join_comma (x # y # ys) = x @ '', '' @ join_comma (y # ys)"

subsection \<open>Dicts\<close>

type_synonym pydict = "(string \<times> json) list"

text \<open>\<^verbatim>\<open>d[k] = v\<close> keeps the place of a key that is there and appends a new one;
  \<^verbatim>\<open>{**a, **b}\<close> and \<^verbatim>\<open>a.update(b)\<close> store the items of \<open>b\<close> into \<open>a\<close> in order.\<close>

fun dict_set :: "pydict \<Rightarrow> string \<Rightarrow> json \<Rightarrow> pydict" where
  "dict_set [] k v = [(k, v)]"
| "dict_set ((k', v') # d) k v = (if k' = k then (k, v) # d else (k', v') # dict_set d k v)"

definition dict_merge :: "pydict \<Rightarrow> pydict \<Rightarrow> pydict" where
  "dict_merge a b = foldl (\<lambda>d (k, v). dict_set d k v) a b"

subsection \<open>What the interpreter and pydantic do to a value\<close>

text \<open>
  \<^verbatim>\<open>str()\<close> of a float, a list or a dict, and pydantic's coercion to \<^verbatim>\<open>int\<close> of a value
  that is no \<^verbatim>\<open>int\<close> (\<open>None\<close>: a \<^verbatim>\<open>ValidationError\<close>), are taken as given.
\<close>

record py_interp =
  py_repr :: "json \<Rightarrow> string"
  lax_int :: "json \<Rightarrow> int option"

text \<open>\<^verbatim>\<open>str(v)\<close>, as an f-string formats a value.\<close>

definition py_str :: "py_interp \<Rightarrow> json \<Rightarrow> string" where
  "py_str I v =
     (case v of
        JStr s \<Rightarrow> s
      | JInt i \<Rightarrow> str_int i
      | JBool b \<Rightarrow> (if b then ''True'' else ''False'')
      | JNull \<Rightarrow> ''None''
      | _ \<Rightarrow> py_repr I v)"

section \<open>ErrorModel: \<^verbatim>\<open>app/helpers/error.py\<close>\<close>

text \<open>\<^verbatim>\<open>class CustomErrorCode\<close>.\<close>

definition PARSE_ERROR :: int where "PARSE_ERROR = - 32700"
definition INVALID_REQUEST :: int where "INVALID_REQUEST = - 32600"
definition METHOD_NOT_FOUND :: int where "METHOD_NOT_FOUND = - 32601"
definition INVALID_PARAMS :: int where "INVALID_PARAMS = - 32602"
definition INTERNAL_ERROR :: int where "INTERNAL_ERROR = - 32603"
definition CONNECTION_CLOSED :: int where "CONNECTION_CLOSED = - 32001"
definition REQUEST_TIMEOUT :: int where "REQUEST_TIMEOUT = - 32002"

text \<open>\<^verbatim>\<open>class CustomError(Exception)\<close>: its three attributes.\<close>

record custom_error =
  err_code :: int
  err_message :: string
  err_data :: "json option"

text \<open>
  The exceptions the modelled code raises or lets through. \<open>CustomError\<close> is the
  domain error; the others are Python's and the libraries', each with its \<^verbatim>\<open>str(e)\<close>.
\<close>

datatype exn =
    CustomError custom_error
  | ValidationError string
  | TypeError string
  | AttributeError string
  | ValueError string
  | RuntimeError string
  | TimeoutError string
  | JSONDecodeError string
  | CalledProcessError string
  | OtherException string

fun exn_str :: "exn \<Rightarrow> string" where
  "exn_str (CustomError e) = err_message e"
| "exn_str (ValidationError s) = s"
| "exn_str (TypeError s) = s"
| "exn_str (AttributeError s) = s"
| "exn_str (ValueError s) = s"
| "exn_str (RuntimeError s) = s"
| "exn_str (TimeoutError s) = s"
| "exn_str (JSONDecodeError s) = s"
| "exn_str (CalledProcessError s) = s"
| "exn_str (OtherException s) = s"

text \<open>\<^verbatim>\<open>CustomError.to_response\<close>: \<open>data\<close> is left out when it is falsy.\<close>

definition to_response :: "custom_error \<Rightarrow> pydict" where
  "to_response e =
     [(''code'', JInt (err_code e)), (''message'', JStr (err_message e))]
     @ (case err_data e of
          Some d \<Rightarrow> (if truthy d then [(''data'', d)] else [])
        | None \<Rightarrow> [])"

text \<open>
  The argument of \<^verbatim>\<open>format_error\<close> (\<^verbatim>\<open>error: Any\<close>): an exception object, or a value that
  is none (a dict, \<^verbatim>\<open>None\<close>, a string, ...).
\<close>

datatype py_error = Raised exn | Value json

text \<open>
  \<^verbatim>\<open>CustomErrorResponse(**error)\<close> (\<^verbatim>\<open>schema.py\<close>: \<^verbatim>\<open>code: int\<close>, \<^verbatim>\<open>message: str\<close>,
  \<^verbatim>\<open>data: Optional[Dict[str, Any]] = None\<close>): the three fields, or \<open>None\<close> for a
  \<^verbatim>\<open>ValidationError\<close>.
\<close>

definition validate_error_response ::
  "py_interp \<Rightarrow> pydict \<Rightarrow> (int \<times> string \<times> json option) option" where
  "validate_error_response I d =
     (case (case map_of d ''code'' of
              None \<Rightarrow> None
            | Some (JInt i) \<Rightarrow> Some i
            | Some v \<Rightarrow> lax_int I v,
            case map_of d ''message'' of
              Some (JStr s) \<Rightarrow> Some s
            | _ \<Rightarrow> None,
            case map_of d ''data'' of
              None \<Rightarrow> Some None
            | Some JNull \<Rightarrow> Some None
            | Some (JDict x) \<Rightarrow> Some (Some (JDict x))
            | Some _ \<Rightarrow> None) of
        (Some c, Some m, Some dat) \<Rightarrow> Some (c, m, dat)
      | _ \<Rightarrow> None)"

text \<open>\<^verbatim>\<open>format_error\<close>.\<close>

definition format_error :: "py_interp \<Rightarrow> py_error \<Rightarrow> custom_error" where
  "format_error I error =
     (case error of
        Raised (CustomError e) \<Rightarrow> e
      | Raised ex \<Rightarrow>
          \<lparr>err_code = INTERNAL_ERROR, err_message = exn_str ex, err_data = None\<rparr>
      | Value v \<Rightarrow>
          (case (case v of
                   JDict d \<Rightarrow>
                     (if map_of d ''code'' \<noteq> None \<and> map_of d ''message'' \<noteq> None
                      then validate_error_response I d else None)
                 | _ \<Rightarrow> None) of
             Some (c, m, dat) \<Rightarrow>
               \<lparr>err_code = c,
                err_message = remove_all (''MCP error '' @ str_int c @ '': '') m,
                err_data = dat\<rparr>
           | None \<Rightarrow>
               \<lparr>err_code = INTERNAL_ERROR, err_message = ''Unknown error'',
                err_data = Some (JDict [(''error'',
                   if v = JNull then JNull else JStr (py_str I v))])\<rparr>))"

section \<open>ArgumentResolver: \<^verbatim>\<open>app/helpers/uv_handler.py\<close>\<close>

text \<open>The parse state of \<^verbatim>\<open>parse_mcp_server_params\<close> (its local variables).\<close>

record parse_state =
  ps_package_name :: "string option"
  ps_entry_point :: "string option"
  ps_source_path :: "string option"
  ps_with_deps :: "string list"
  ps_index_url :: "string option"
  ps_extra_index_urls :: "string list"

definition initial_parse_state :: parse_state where
  "initial_parse_state =
     \<lparr>ps_package_name = None, ps_entry_point = None, ps_source_path = None,
      ps_with_deps = [], ps_index_url = None, ps_extra_index_urls = []\<rparr>"

text \<open>
  The \<^verbatim>\<open>while i < len(args)\<close> loop, as a recursion on the arguments from index \<open>i\<close> on.
  \<^verbatim>\<open>i + 1 < len(args)\<close> is "a next argument exists".
\<close>

fun parse_loop :: "string list \<Rightarrow> parse_state \<Rightarrow> parse_state" where
  "parse_loop [] st = st"
| "parse_loop (arg # rest) st =
     (case rest of
        nxt # rest' \<Rightarrow>
          (if arg = ''--from'' then parse_loop rest' (st\<lparr>ps_source_path := Some nxt\<rparr>)
           else if arg = ''--with''
             then parse_loop rest' (st\<lparr>ps_with_deps := ps_with_deps st @ split_all CHR '','' nxt\<rparr>)
           else if arg = ''--index-url'' then parse_loop rest' (st\<lparr>ps_index_url := Some nxt\<rparr>)
           else if arg = ''--extra-index-url''
             then parse_loop rest' (st\<lparr>ps_extra_index_urls := ps_extra_index_urls st @ [nxt]\<rparr>)
           else if startswith arg ''--''
             then (if \<not> startswith nxt ''--'' then parse_loop rest' st else parse_loop rest st)
           else if \<not> truthy_str (ps_package_name st)
             then (if CHR '':'' \<in> set arg
                   then parse_loop rest
                     (st\<lparr>ps_package_name := Some (fst (split_first CHR '':'' arg)),
                        ps_entry_point := Some (snd (split_first CHR '':'' arg))\<rparr>)
                   else parse_loop rest (st\<lparr>ps_package_name := Some arg\<rparr>))
           else parse_loop rest st)
      | [] \<Rightarrow>
          (if startswith arg ''--'' then st
           else if \<not> truthy_str (ps_package_name st)
             then (if CHR '':'' \<in> set arg
                   then st\<lparr>ps_package_name := Some (fst (split_first CHR '':'' arg)),
                          ps_entry_point := Some (snd (split_first CHR '':'' arg))\<rparr>
                   else st\<lparr>ps_package_name := Some arg\<rparr>)
           else st))"

text \<open>The value of an \<^verbatim>\<open>Optional[str]\<close> when it is truthy.\<close>

definition truthy_val :: "string option \<Rightarrow> string option" where
  "truthy_val x = (if truthy_str x then x else None)"

text \<open>The loop and the check after it: \<^verbatim>\<open>if not package_name: raise ValueError(...)\<close>.
  On success the (truthy) package name is returned with the state.\<close>

definition parse_args :: "string list \<Rightarrow> exn + string \<times> parse_state" where
  "parse_args args =
     (let st = parse_loop args initial_parse_state in
      case truthy_val (ps_package_name st) of
        None \<Rightarrow> Inl (ValueError ''No package name found in arguments'')
      | Some pkg \<Rightarrow> Inr (pkg, st))"

text \<open>
  \<^verbatim>\<open>resolve_entry_point\<close>. \<open>entry_points\<close> is the dict of entry-point groups, each a
  dict from script name to target, in dict order; \<open>inspection_data\<close> is not read.
\<close>

type_synonym entry_points = "(string \<times> (string \<times> string) list) list"

definition resolve_entry_point ::
  "string \<Rightarrow> string option \<Rightarrow> entry_points \<Rightarrow> (string \<times> string) list \<Rightarrow> string \<times> string" where
  "resolve_entry_point package_name requested_entry entry_points inspection_data =
     (let default_module = dash_to_underscore package_name;
          default_function = ''main'' in
      case truthy_val requested_entry of
        Some r \<Rightarrow>
          (if CHR ''.'' \<in> set r \<and> CHR '':'' \<in> set r then rsplit_last CHR '':'' r
           else if CHR '':'' \<in> set r then
             (let (module_path, function_name) = split_first CHR '':'' r in
              (if module_path = [] then default_module else module_path, function_name))
           else (default_module, r))
      | None \<Rightarrow>
        (let console_scripts =
               (case map_of entry_points ''console_scripts'' of None \<Rightarrow> [] | Some cs \<Rightarrow> cs);
             by_name =
               (case map_of console_scripts package_name of
                  Some entry_target \<Rightarrow>
                    (if CHR '':'' \<in> set entry_target
                     then Some (rsplit_last CHR '':'' entry_target) else None)
                | None \<Rightarrow> None);
             first_script =
               (case filter (\<lambda>(script_name, entry_target). CHR '':'' \<in> set entry_target)
                       console_scripts of
                  [] \<Rightarrow> None
                | (script_name, entry_target) # _ \<Rightarrow> Some (rsplit_last CHR '':'' entry_target))
         in case by_name of
              Some r \<Rightarrow> r
            | None \<Rightarrow>
                (case first_script of
                   Some r \<Rightarrow> r
                 | None \<Rightarrow> (default_module, default_function))))"

text \<open>
  What \<^verbatim>\<open>parse_mcp_server_params\<close> asks of the machine it runs on: the cache directory
  chosen by \<^verbatim>\<open>setup_uv_environment\<close> (or the exception it raises), whether a package is
  importable, the outcome of each \<^verbatim>\<open>subprocess.run(..., check=True)\<close> (\<open>None\<close>: it
  returned), the metadata lookup (importlib, then the \<^verbatim>\<open>uv pip show\<close> fallback, which
  lets every exception but \<^verbatim>\<open>CalledProcessError\<close> through), and the entry points read
  from \<^verbatim>\<open>uv pip inspect\<close> (\<open>None\<close>: the command failed, printed no JSON, or printed
  none with an \<^verbatim>\<open>entry_points\<close> key).
\<close>

record uv_env =
  setup_uv_environment :: "exn + string"
  is_package_installed :: "string \<Rightarrow> bool"
  subprocess_run :: "string list \<Rightarrow> exn option"
  package_metadata :: "string \<Rightarrow> exn + (string \<times> string) list"
  pip_inspect :: "string \<Rightarrow> entry_points option"

record uv_params =
  package_name :: string
  module_path :: string
  function_name :: string
  entry_point :: "string option"
  source_path :: "string option"
  with_deps :: "string list"
  inspection_data :: "(string \<times> string) list"
  up_entry_points :: entry_points
  install_success :: bool

text \<open>The install of the main package, when it is not importable yet.\<close>

definition install_main :: "uv_env \<Rightarrow> string \<Rightarrow> string \<Rightarrow> parse_state \<Rightarrow> exn option" where
  "install_main env cache_dir pkg st =
     (if is_package_installed env pkg then None
      else
        (let uv_add_cmd =
               [''uv'', ''pip'', ''install'', ''--prefix'', cache_dir]
               @ (case truthy_val (ps_index_url st) of
                    Some u \<Rightarrow> [''--index-url'', u] | None \<Rightarrow> [])
               @ concat (map (\<lambda>u. [''--extra-index-url'', u]) (ps_extra_index_urls st))
               @ [case truthy_val (ps_source_path st) of Some src \<Rightarrow> src | None \<Rightarrow> pkg]
         in case subprocess_run env uv_add_cmd of
              None \<Rightarrow> None
            | Some (CalledProcessError stderr) \<Rightarrow>
                Some (RuntimeError (''uv install failed: '' @ stderr))
            | Some e \<Rightarrow> Some e))"

text \<open>The loop over the \<^verbatim>\<open>--with\<close> dependencies: the first failing install raises.\<close>

fun install_deps :: "uv_env \<Rightarrow> string \<Rightarrow> string list \<Rightarrow> exn option" where
  "install_deps env cache_dir [] = None"
| "install_deps env cache_dir (dep # deps) =
     (if is_package_installed env dep then install_deps env cache_dir deps
      else
        (case subprocess_run env [''uv'', ''pip'', ''install'', ''--prefix'', cache_dir, dep] of
           Some e \<Rightarrow> Some e
         | None \<Rightarrow> install_deps env cache_dir deps))"

definition parse_mcp_server_params :: "uv_env \<Rightarrow> string list \<Rightarrow> exn + uv_params" where
  "parse_mcp_server_params env args =
     (case setup_uv_environment env of
        Inl e \<Rightarrow> Inl e
      | Inr cache_dir \<Rightarrow>
     (case parse_args args of
        Inl e \<Rightarrow> Inl e
      | Inr (pkg, st) \<Rightarrow>
     (case install_main env cache_dir pkg st of
        Some e \<Rightarrow> Inl e
      | None \<Rightarrow>
     (case install_deps env cache_dir (ps_with_deps st) of
        Some e \<Rightarrow> Inl e
      | None \<Rightarrow>
     (case package_metadata env pkg of
        Inl e \<Rightarrow> Inl e
      | Inr insp \<Rightarrow>
     (let eps = (case pip_inspect env pkg of None \<Rightarrow> [] | Some e \<Rightarrow> e);
          (m, f) = resolve_entry_point pkg (ps_entry_point st) eps insp
      in Inr \<lparr>package_name = pkg, module_path = m, function_name = f,
              entry_point = ps_entry_point st, source_path = ps_source_path st,
              with_deps = ps_with_deps st, inspection_data = insp,
              up_entry_points = eps, install_success = True\<rparr>))))))"

section \<open>Tracer: \<^verbatim>\<open>app/helpers/tracer.py\<close>\<close>

text \<open>\<^verbatim>\<open>Literal["running", "success", "error"]\<close>.\<close>

datatype span_status = StRunning | StSuccess | StError

text \<open>
  \<^verbatim>\<open>class TraceSpan\<close> (\<^verbatim>\<open>schema.py\<close>). Times are milliseconds as Python floats; the model
  leaves the number type \<open>'t\<close> open and only uses its subtraction and its zero.
\<close>

record 't trace_span =
  seq :: string
  parent_seq :: "string option"
  start_time :: 't
  duration :: "'t option"
  status :: span_status
  error :: "string option"
  data :: "pydict option"
  is_valid :: bool

text \<open>
  What the tracer reads from the interpreter: the \<open>n\<close>-th reading of
  \<^verbatim>\<open>time.time() * 1000\<close> and of \<^verbatim>\<open>datetime.now().isoformat()\<close>, and the validation of a
  \<^verbatim>\<open>float\<close> field by pydantic (\<open>None\<close>: a \<^verbatim>\<open>ValidationError\<close>).
\<close>

record 't py_env =
  interp :: py_interp
  time_ms :: "nat \<Rightarrow> 't"
  datetime_now :: "nat \<Rightarrow> string"
  to_float :: "json \<Rightarrow> 't option"

text \<open>
  \<^verbatim>\<open>class Tracer\<close>. \<open>clock_reads\<close> is the model's: how many clock readings were taken
  so far, so that the next reading is a new one.
\<close>

record 't tracer =
  spans :: "'t trace_span list"
  trace_id :: string
  trace_start_time :: string
  end_time :: "string option"
  current_parent :: "string option"
  trace_additional_data :: "pydict option"
  clock_reads :: nat

text \<open>\<^verbatim>\<open>Tracer.__init__\<close>, with \<open>n\<close> clock readings taken before.\<close>

definition new_tracer :: "'t py_env \<Rightarrow> nat \<Rightarrow> string \<Rightarrow> string option \<Rightarrow> pydict option \<Rightarrow> 't tracer" where
  "new_tracer env n tid parent additional_data =
     \<lparr>spans = [], trace_id = tid, trace_start_time = datetime_now env n, end_time = None,
      current_parent = parent, trace_additional_data = additional_data, clock_reads = Suc n\<rparr>"

text \<open>\<^verbatim>\<open>_end_previous_span\<close>, given the clock reading it takes.\<close>

definition end_previous_span :: "'t::minus \<Rightarrow> 't trace_span \<Rightarrow> bool \<Rightarrow> 't trace_span" where
  "end_previous_span now sp is_error =
     sp\<lparr>duration := Some (now - start_time sp),
          status := (if is_error then StError else StSuccess)\<rparr>"

text \<open>\<^verbatim>\<open>record_span\<close>: the new span and the tracer after the call.\<close>

definition record_span ::
  "('t::minus) py_env \<Rightarrow> string \<Rightarrow> string option \<Rightarrow> pydict option \<Rightarrow> 't tracer
     \<Rightarrow> 't trace_span \<times> 't tracer" where
  "record_span env name p_seq additional_data tr =
     (let tr1 =
            (if spans tr \<noteq> [] \<and> status (last (spans tr)) = StRunning
             then tr\<lparr>spans := butlast (spans tr)
                        @ [end_previous_span (time_ms env (clock_reads tr)) (last (spans tr)) False],
                     clock_reads := Suc (clock_reads tr)\<rparr>
             else tr);
          new_span =
            \<lparr>seq = name,
             parent_seq = (case truthy_val p_seq of Some p \<Rightarrow> Some p | None \<Rightarrow> current_parent tr),
             start_time = time_ms env (clock_reads tr1),
             duration = None, status = StRunning, error = None,
             data = additional_data, is_valid = True\<rparr>
      in (new_span, tr1\<lparr>spans := spans tr1 @ [new_span], clock_reads := Suc (clock_reads tr1)\<rparr>))"

text \<open>The validation of a \<^verbatim>\<open>status\<close> value by the \<^verbatim>\<open>Literal\<close> field.\<close>

definition parse_status :: "json \<Rightarrow> span_status option" where
  "parse_status v =
     (if v = JStr ''running'' then Some StRunning
      else if v = JStr ''success'' then Some StSuccess
      else if v = JStr ''error'' then Some StError
      else None)"

text \<open>
  The body of the loop of \<^verbatim>\<open>_merge_spans_array\<close> for a dict \<open>span_data\<close>: the
  \<^verbatim>\<open>TraceSpan\<close> it builds, or \<open>None\<close> when building it raises (a \<^verbatim>\<open>TypeError\<close> of
  \<^verbatim>\<open>**\<close> on a truthy \<open>data\<close> that is no dict, or a \<^verbatim>\<open>ValidationError\<close> of a field).
  \<open>now\<close> is the reading of the clock taken for the default of \<open>start_time\<close>.
\<close>

definition merged_span ::
  "'t py_env \<Rightarrow> 't \<Rightarrow> string \<Rightarrow> string \<Rightarrow> span_status \<Rightarrow> pydict \<Rightarrow> pydict
     \<Rightarrow> 't trace_span option" where
  "merged_span env now base_seq p_seq st additional_data span_data =
     (let seq_v = base_seq @ ''.''
            @ (case map_of span_data ''seq'' of None \<Rightarrow> ''unknown_span'' | Some v \<Rightarrow> py_str (interp env) v);
          parent_v =
            (case map_of span_data ''parent_seq'' of
               None \<Rightarrow> Some p_seq
             | Some v \<Rightarrow>
                 (if truthy v then (case v of JStr s \<Rightarrow> Some s | _ \<Rightarrow> None) else Some p_seq));
          start_v =
            (case map_of span_data ''start_time'' of None \<Rightarrow> Some now | Some v \<Rightarrow> to_float env v);
          duration_v =
            (case map_of span_data ''duration'' of
               None \<Rightarrow> Some None
             | Some JNull \<Rightarrow> Some None
             | Some v \<Rightarrow> map_option Some (to_float env v));
          status_v =
            (case map_of span_data ''status'' of
               None \<Rightarrow> Some st
             | Some v \<Rightarrow> (if truthy v then parse_status v else Some st));
          error_v =
            (case map_of span_data ''error'' of
               None \<Rightarrow> Some None
             | Some JNull \<Rightarrow> Some None
             | Some (JStr s) \<Rightarrow> Some (Some s)
             | Some _ \<Rightarrow> None);
          data_v =
            (case map_of span_data ''data'' of
               None \<Rightarrow> Some additional_data
             | Some v \<Rightarrow>
                 (if truthy v
                  then (case v of JDict d \<Rightarrow> Some (dict_merge additional_data d) | _ \<Rightarrow> None)
                  else Some additional_data))
      in case (parent_v, start_v, duration_v, status_v, error_v, data_v) of
           (Some p, Some s, Some d, Some stv, Some e, Some dv) \<Rightarrow>
             Some \<lparr>seq = seq_v, parent_seq = Some p, start_time = s, duration = d,
                   status = stv, error = e, data = Some dv, is_valid = False\<rparr>
         | _ \<Rightarrow> None)"

text \<open>
  \<^verbatim>\<open>_merge_spans_array\<close>: the spans it appends, and the clock readings after it. An
  entry that is no dict is passed over; a dict reads the clock once (the default of
  \<^verbatim>\<open>.get("start_time", ...)\<close> is evaluated first) and is passed over when building its
  span raises.
\<close>

fun merge_spans_array ::
  "'t py_env \<Rightarrow> json list \<Rightarrow> string \<Rightarrow> string \<Rightarrow> span_status \<Rightarrow> pydict \<Rightarrow> nat
     \<Rightarrow> 't trace_span list \<times> nat" where
  "merge_spans_array env [] base_seq p_seq st additional_data n = ([], n)"
| "merge_spans_array env (span_data # rest) base_seq p_seq st additional_data n =
     (case span_data of
        JDict sd \<Rightarrow>
          (let (more, n') = merge_spans_array env rest base_seq p_seq st additional_data (Suc n) in
           case merged_span env (time_ms env n) base_seq p_seq st additional_data sd of
             Some sp \<Rightarrow> (sp # more, n')
           | None \<Rightarrow> (more, n'))
      | _ \<Rightarrow> merge_spans_array env rest base_seq p_seq st additional_data n)"

text \<open>
  \<^verbatim>\<open>_merge_trace_data\<close>: the tracer's additional data after the call, and the
  \<^verbatim>\<open>AttributeError\<close> of \<^verbatim>\<open>.append\<close> when \<open>child_traces\<close> holds something that is no
  list (the data is updated by then).
\<close>

definition merge_trace_data :: "json \<Rightarrow> pydict \<Rightarrow> 't tracer \<Rightarrow> exn option \<times> 't tracer" where
  "merge_trace_data trace_data additional_data tr =
     (let d0 = (case trace_additional_data tr of None \<Rightarrow> [] | Some d \<Rightarrow> d);
          d1 = dict_merge d0 additional_data
      in case map_of d1 ''child_traces'' of
           None \<Rightarrow>
             (None, tr\<lparr>trace_additional_data :=
                        Some (dict_set d1 ''child_traces'' (JList [trace_data]))\<rparr>)
         | Some (JList l) \<Rightarrow>
             (None, tr\<lparr>trace_additional_data :=
                        Some (dict_set d1 ''child_traces'' (JList (l @ [trace_data])))\<rparr>)
         | Some _ \<Rightarrow>
             (Some (AttributeError ''object has no attribute 'append' ''),
              tr\<lparr>trace_additional_data := Some d1\<rparr>))"

text \<open>\<^verbatim>\<open>a or b or c\<close> on the entries \<open>k1\<close>, \<open>k2\<close> of a dict and a default string.\<close>

definition first_truthy :: "pydict \<Rightarrow> string \<Rightarrow> string \<Rightarrow> string \<Rightarrow> json" where
  "first_truthy d k1 k2 dflt =
     (case map_of d k1 of
        Some v \<Rightarrow> (if truthy v then v
                   else (case map_of d k2 of
                           Some w \<Rightarrow> (if truthy w then w else JStr dflt)
                         | None \<Rightarrow> JStr dflt))
      | None \<Rightarrow> (case map_of d k2 of
                   Some w \<Rightarrow> (if truthy w then w else JStr dflt)
                 | None \<Rightarrow> JStr dflt))"

text \<open>The span built by \<^verbatim>\<open>_create_fallback_span\<close> and by \<^verbatim>\<open>_create_error_span\<close>.\<close>

definition fallback_span ::
  "('t::zero) py_env \<Rightarrow> 't \<Rightarrow> json \<Rightarrow> string \<Rightarrow> string \<Rightarrow> span_status \<Rightarrow> pydict
     \<Rightarrow> 't trace_span" where
  "fallback_span env now child_trace base_seq p_seq st additional_data =
     (let tid = (case child_trace of
                   JDict ct \<Rightarrow> first_truthy ct ''trace_id'' ''seq'' ''unknown_span''
                 | _ \<Rightarrow> JStr ''unknown_span'')
      in \<lparr>seq = base_seq @ ''.'' @ py_str (interp env) tid, parent_seq = Some p_seq, start_time = now,
          duration = Some 0, status = st, error = None,
          data = Some (dict_set additional_data ''child_trace'' child_trace),
          is_valid = False\<rparr>)"

definition error_span ::
  "('t::zero) py_env \<Rightarrow> 't \<Rightarrow> json \<Rightarrow> string \<Rightarrow> string \<Rightarrow> span_status \<Rightarrow> pydict \<Rightarrow> string
     \<Rightarrow> 't trace_span" where
  "error_span env now child_trace base_seq p_seq st additional_data error_message =
     (let tid = (case child_trace of
                   JDict ct \<Rightarrow> first_truthy ct ''seq'' ''trace_id'' ''parse_error''
                 | _ \<Rightarrow> JStr ''parse_error'')
      in \<lparr>seq = base_seq @ ''.'' @ py_str (interp env) tid, parent_seq = Some p_seq, start_time = now,
          duration = Some 0, status = st, error = Some error_message,
          data = Some (dict_set additional_data ''child_trace'' child_trace),
          is_valid = False\<rparr>)"

definition create_fallback_span ::
  "('t::zero) py_env \<Rightarrow> json \<Rightarrow> string \<Rightarrow> string \<Rightarrow> span_status \<Rightarrow> pydict \<Rightarrow> 't tracer
     \<Rightarrow> 't tracer" where
  "create_fallback_span env child_trace base_seq p_seq st additional_data tr =
     tr\<lparr>spans := spans tr
          @ [fallback_span env (time_ms env (clock_reads tr)) child_trace base_seq p_seq st
               additional_data],
        clock_reads := Suc (clock_reads tr)\<rparr>"

definition create_error_span ::
  "('t::zero) py_env \<Rightarrow> json \<Rightarrow> string \<Rightarrow> string \<Rightarrow> span_status \<Rightarrow> pydict \<Rightarrow> string
     \<Rightarrow> 't tracer \<Rightarrow> 't tracer" where
  "create_error_span env child_trace base_seq p_seq st additional_data error_message tr =
     tr\<lparr>spans := spans tr
          @ [error_span env (time_ms env (clock_reads tr)) child_trace base_seq p_seq st
               additional_data error_message],
        clock_reads := Suc (clock_reads tr)\<rparr>"

text \<open>\<^verbatim>\<open>_merge_spans_array\<close> on the tracer.\<close>

definition merge_spans ::
  "'t py_env \<Rightarrow> json list \<Rightarrow> string \<Rightarrow> string \<Rightarrow> span_status \<Rightarrow> pydict \<Rightarrow> 't tracer
     \<Rightarrow> 't tracer" where
  "merge_spans env sps base_seq p_seq st additional_data tr =
     (let (new, n) = merge_spans_array env sps base_seq p_seq st additional_data (clock_reads tr)
      in tr\<lparr>spans := spans tr @ new, clock_reads := n\<rparr>)"

text \<open>
  \<^verbatim>\<open>merge_child_trace\<close>. Of the calls it makes only \<^verbatim>\<open>_merge_trace_data\<close> can raise (the
  inner handler passes, and the fallback span is made); nothing raises into the outer
  handler, whose \<^verbatim>\<open>_create_error_span\<close> is modelled above and not reached here.
\<close>

definition merge_child_trace ::
  "('t::zero) py_env \<Rightarrow> string \<Rightarrow> string \<Rightarrow> bool \<Rightarrow> json \<Rightarrow> pydict option \<Rightarrow> 't tracer
     \<Rightarrow> 't tracer" where
  "merge_child_trace env base_seq p_seq is_success child_trace additional_data tr =
     (let st = (if is_success then StSuccess else StError);
          ad = (case additional_data of None \<Rightarrow> [] | Some d \<Rightarrow> d)
      in case child_trace of
           JDict ct \<Rightarrow>
             (case map_of ct ''spans'' of
                Some (JList sps) \<Rightarrow>
                  (let tr1 = merge_spans env sps base_seq p_seq st ad tr in
                   case map_of ct ''data'' of
                     None \<Rightarrow> tr1
                   | Some td \<Rightarrow>
                       (case merge_trace_data td ad tr1 of
                          (None, tr2) \<Rightarrow> tr2
                        | (Some e, tr2) \<Rightarrow>
                            create_fallback_span env child_trace base_seq p_seq st ad tr2))
              | _ \<Rightarrow> create_fallback_span env child_trace base_seq p_seq st ad tr)
         | JList sps \<Rightarrow> merge_spans env sps base_seq p_seq st ad tr
         | _ \<Rightarrow> create_fallback_span env child_trace base_seq p_seq st ad tr)"

text \<open>The first loop of \<^verbatim>\<open>get_trace\<close>: every span still running is ended, each with a
  clock reading of its own.\<close>

fun end_running ::
  "('t::minus) py_env \<Rightarrow> bool \<Rightarrow> 't trace_span list \<Rightarrow> nat \<Rightarrow> 't trace_span list \<times> nat" where
  "end_running env is_error [] n = ([], n)"
| "end_running env is_error (s # ss) n =
     (if status s = StRunning
      then (let (r, n') = end_running env is_error ss (Suc n)
            in (end_previous_span (time_ms env n) s is_error # r, n'))
      else (let (r, n') = end_running env is_error ss n in (s # r, n')))"

text \<open>The snapshot \<^verbatim>\<open>get_trace\<close> returns.\<close>

record 't trace_out =
  traceId :: string
  startTime :: string
  endTime :: "string option"
  out_data :: "pydict option"
  out_spans :: "'t trace_span list"
  isValid :: bool

definition get_trace ::
  "('t::minus) py_env \<Rightarrow> bool \<Rightarrow> 't tracer \<Rightarrow> 't trace_out \<times> 't tracer" where
  "get_trace env last_span_success tr =
     (let (sps, n) = end_running env (\<not> last_span_success) (spans tr) (clock_reads tr);
          tr1 = tr\<lparr>spans := sps, clock_reads := n\<rparr>;
          tr2 = (case end_time tr1 of
                   None \<Rightarrow> tr1\<lparr>end_time := Some (datetime_now env n), clock_reads := Suc n\<rparr>
                 | Some t \<Rightarrow> tr1)
      in (\<lparr>traceId = trace_id tr2, startTime = trace_start_time tr2, endTime = end_time tr2,
           out_data = trace_additional_data tr2, out_spans = spans tr2, isValid = True\<rparr>,
          tr2))"

text \<open>The operations of a tracer, and a run of them from a tracer just made.\<close>

datatype tracer_op =
    RecordSpan string "string option" "pydict option"
  | MergeChildTrace string string bool json "pydict option"
  | GetTrace bool

fun tracer_step :: "('t::{minus,zero}) py_env \<Rightarrow> tracer_op \<Rightarrow> 't tracer \<Rightarrow> 't tracer" where
  "tracer_step env (RecordSpan name p_seq d) tr = snd (record_span env name p_seq d tr)"
| "tracer_step env (MergeChildTrace base_seq p_seq ok ct d) tr =
     merge_child_trace env base_seq p_seq ok ct d tr"
| "tracer_step env (GetTrace ok) tr = snd (get_trace env ok tr)"

fun tracer_run :: "('t::{minus,zero}) py_env \<Rightarrow> tracer_op list \<Rightarrow> 't tracer \<Rightarrow> 't tracer" where
  "tracer_run env [] tr = tr"
| "tracer_run env (x # xs) tr = tracer_run env xs (tracer_step env x tr)"

text \<open>
  Where a span came from: \<open>Recorded\<close> by \<^verbatim>\<open>record_span\<close>, or \<open>Absorbed\<close> by
  \<^verbatim>\<open>merge_child_trace\<close>. \<open>span_origins\<close> lists, for a run, the origin of every span the
  run appended, in the order of appending. \<^verbatim>\<open>get_trace\<close> appends no span, so the label
  given to it is never used.
\<close>

datatype origin = Recorded | Absorbed

fun op_origin :: "tracer_op \<Rightarrow> origin" where
  "op_origin (RecordSpan name p_seq d) = Recorded"
| "op_origin (MergeChildTrace base_seq p_seq ok ct d) = Absorbed"
| "op_origin (GetTrace ok) = Absorbed"

fun span_origins :: "('t::{minus,zero}) py_env \<Rightarrow> tracer_op list \<Rightarrow> 't tracer \<Rightarrow> origin list" where
  "span_origins env [] tr = []"
| "span_origins env (x # xs) tr =
     replicate (length (spans (tracer_step env x tr)) - length (spans tr)) (op_origin x)
     @ span_origins env xs (tracer_step env x tr)"

section \<open>WorkerBridge: \<^verbatim>\<open>app/helpers/mcp_caller.py\<close>\<close>

text \<open>\<^verbatim>\<open>_convert_to_dict\<close> on a parsed JSON value: the entries of a dict whose converted
  value is \<^verbatim>\<open>None\<close> are dropped, at every depth.\<close>

fun convert_to_dict :: "json \<Rightarrow> json" where
  "convert_to_dict (JList xs) = JList (map convert_to_dict xs)"
| "convert_to_dict (JDict kvs) =
     JDict (filter (\<lambda>kv. snd kv \<noteq> JNull) (map (\<lambda>kv. (fst kv, convert_to_dict (snd kv))) kvs))"
| "convert_to_dict v = v"

text \<open>
  What one \<^verbatim>\<open>send_request\<close> meets after it wrote its line: a reply line that parses
  (\<open>Reply\<close>), no data within the timeout (\<open>NoData\<close>: \<^verbatim>\<open>select\<close> returns nothing ready),
  end of stream (\<open>Eof\<close>: \<^verbatim>\<open>readline\<close> returns the empty string), a line that is no JSON
  (\<open>BadJson\<close>), or a failing write (\<open>WriteFailed\<close>: the pipe is broken).
\<close>

datatype reply = Reply json | NoData | Eof | BadJson string | WriteFailed string

text \<open>
  \<^verbatim>\<open>class SimpleThreadedMcpServer\<close>: one worker. \<open>w_stopped\<close> says that \<^verbatim>\<open>stop()\<close> has run
  (shutdown flag set, request pipe closed, thread joined, the other ends closed);
  \<open>w_sent\<close> are the requests written to its request pipe, oldest first.
\<close>

record worker_state =
  w_module_path :: string
  w_function_name :: string
  w_is_running :: bool
  w_stopped :: bool
  w_sent :: "json list"

text \<open>\<^verbatim>\<open>McpCallerConfiguration\<close> (\<^verbatim>\<open>schema.py\<close>).\<close>

record caller_config =
  cfg_protocol_version :: string
  cfg_jsonrpc :: string
  cfg_type :: string
  cfg_args :: "string list option"
  cfg_module_path :: string
  cfg_package_name :: string
  cfg_function_name :: string

text \<open>
  \<^verbatim>\<open>class McpCaller\<close>. \<open>server\<close> is \<^verbatim>\<open>self._server\<close>: the index of its worker among all
  the workers made so far, or \<open>None\<close>. \<open>server_info\<close> is \<open>JNull\<close> for \<^verbatim>\<open>None\<close>.
\<close>

record mcp_caller =
  config :: caller_config
  request_message_id :: int
  is_connected :: bool
  server_info :: json
  server :: "nat option"

definition new_mcp_caller :: "caller_config \<Rightarrow> mcp_caller" where
  "new_mcp_caller cfg =
     \<lparr>config = cfg, request_message_id = 1, is_connected = False, server_info = JNull,
      server = None\<rparr>"

text \<open>
  What the bridge and the dispatcher read from outside: the interpreter and the clock,
  the machine the ArgumentResolver runs on, and the workers. \<open>worker w sent timeout\<close> is
  what the \<^verbatim>\<open>send_request\<close> to worker \<open>w\<close> meets whose request is the last of \<open>sent\<close>,
  with the timeout as Python prints it; \<open>captured_logs\<close> is the console output captured
  during that call.
\<close>

record 't rpc_env =
  penv :: "'t py_env"
  uvenv :: uv_env
  worker :: "nat \<Rightarrow> json list \<Rightarrow> string \<Rightarrow> reply"
  captured_logs :: "nat \<Rightarrow> json list \<Rightarrow> string list"

text \<open>\<^verbatim>\<open>SimpleThreadedMcpServer(...)\<close> followed by \<^verbatim>\<open>start()\<close>: a new worker, running.\<close>

definition launch :: "string \<Rightarrow> string \<Rightarrow> worker_state list \<Rightarrow> nat \<times> worker_state list" where
  "launch m f ws =
     (length ws,
      ws @ [\<lparr>w_module_path = m, w_function_name = f, w_is_running = True, w_stopped = False,
             w_sent = []\<rparr>])"

text \<open>\<^verbatim>\<open>stop()\<close>.\<close>

definition stop :: "nat \<Rightarrow> worker_state list \<Rightarrow> worker_state list" where
  "stop w ws =
     (if w < length ws then ws[w := (ws ! w)\<lparr>w_is_running := False, w_stopped := True\<rparr>] else ws)"

text \<open>The requests written to worker \<open>w\<close> so far.\<close>

definition sent_to :: "worker_state list \<Rightarrow> nat \<Rightarrow> json list" where
  "sent_to ws w = (if w < length ws then w_sent (ws ! w) else [])"

text \<open>\<^verbatim>\<open>send_request\<close>.\<close>

definition send_request ::
  "'t rpc_env \<Rightarrow> nat \<Rightarrow> json \<Rightarrow> string \<Rightarrow> worker_state list \<Rightarrow> (exn + json) \<times> worker_state list" where
  "send_request env w request timeout ws =
     (if \<not> (w < length ws \<and> w_is_running (ws ! w))
      then (Inl (RuntimeError ''Server not running''), ws)
      else
        (let sent = sent_to ws w @ [request];
             ws' = ws[w := (ws ! w)\<lparr>w_sent := sent\<rparr>]
         in case worker env w sent timeout of
              WriteFailed m \<Rightarrow> (Inl (OtherException m), ws)
            | NoData \<Rightarrow>
                (Inl (TimeoutError (''Request timed out after '' @ timeout @ '' seconds'')), ws')
            | Eof \<Rightarrow> (Inl (RuntimeError ''No response from MCP server''), ws')
            | BadJson m \<Rightarrow> (Inl (JSONDecodeError m), ws')
            | Reply j \<Rightarrow> (Inr j, ws')))"

text \<open>
  The reading of the reply to \<^verbatim>\<open>initialize\<close> in \<^verbatim>\<open>connect\<close>: the \<^verbatim>\<open>CustomError\<close> raised
  for a reply with an \<open>error\<close> member, the exception Python raises on a reply that is no
  object or whose \<open>error\<close> has no \<open>message\<close> (a \<^verbatim>\<open>TypeError\<close>, \<^verbatim>\<open>KeyError\<close> or
  \<^verbatim>\<open>AttributeError\<close>; recorded as a \<open>TypeError\<close>), or \<^verbatim>\<open>init_response.get("result", {})\<close>.
\<close>

definition initialize_result :: "py_interp \<Rightarrow> json \<Rightarrow> exn + json" where
  "initialize_result I init_response =
     (case init_response of
        JDict d \<Rightarrow>
          (case map_of d ''error'' of
             Some (JDict ed) \<Rightarrow>
               (case map_of ed ''message'' of
                  Some m \<Rightarrow>
                    Inl (CustomError \<lparr>err_code = INTERNAL_ERROR,
                           err_message = ''Initialize failed: '' @ py_str I m, err_data = None\<rparr>)
                | None \<Rightarrow> Inl (TypeError ''error has no message''))
           | Some _ \<Rightarrow> Inl (TypeError ''error is not an object'')
           | None \<Rightarrow>
               (case map_of d ''result'' of None \<Rightarrow> Inr (JDict []) | Some v \<Rightarrow> Inr v))
      | _ \<Rightarrow> Inl (TypeError ''reply is not an object''))"

definition initialize_request :: "mcp_caller \<Rightarrow> json" where
  "initialize_request c =
     JDict [(''jsonrpc'', JStr (cfg_jsonrpc (config c))),
            (''id'', JInt (request_message_id c)),
            (''method'', JStr ''initialize''),
            (''params'', JDict
               [(''protocolVersion'', JStr (cfg_protocol_version (config c))),
                (''capabilities'', JDict []),
                (''clientInfo'', JDict [(''name'', JStr ''mcp-outlet-python''),
                                        (''version'', JStr ''1.0.0'')])])]"

definition initialized_request :: "mcp_caller \<Rightarrow> json" where
  "initialized_request c =
     JDict [(''jsonrpc'', JStr (cfg_jsonrpc (config c))),
            (''method'', JStr ''notifications/initialized''),
            (''params'', JDict [])]"

text \<open>The handler of \<^verbatim>\<open>connect\<close>: the worker, if there is one, is stopped and dropped, and
  the formatted error is raised.\<close>

definition connect_failed ::
  "'t rpc_env \<Rightarrow> exn \<Rightarrow> mcp_caller \<Rightarrow> worker_state list
     \<Rightarrow> (exn + json) \<times> mcp_caller \<times> worker_state list" where
  "connect_failed env e c ws =
     (Inl (CustomError (format_error (interp (penv env)) (Raised e))),
      c\<lparr>server := None\<rparr>,
      (case server c of Some w \<Rightarrow> stop w ws | None \<Rightarrow> ws))"

text \<open>\<^verbatim>\<open>connect\<close>: what it returns or raises, the caller and the workers after it.\<close>

definition connect ::
  "'t rpc_env \<Rightarrow> mcp_caller \<Rightarrow> worker_state list
     \<Rightarrow> (exn + json) \<times> mcp_caller \<times> worker_state list" where
  "connect env c ws =
     (if is_connected c \<and> truthy (server_info c) then (Inr (server_info c), c, ws)
      else
        (let (w, ws1) = launch (cfg_module_path (config c)) (cfg_function_name (config c)) ws;
             c1 = c\<lparr>server := Some w\<rparr>;
             init_request = initialize_request c1;
             c2 = c1\<lparr>request_message_id := request_message_id c1 + 1\<rparr>
         in case send_request env w init_request ''30.0'' ws1 of
              (Inl e, ws2) \<Rightarrow> connect_failed env e c2 ws2
            | (Inr init_response, ws2) \<Rightarrow>
                (case initialize_result (interp (penv env)) init_response of
                   Inl e \<Rightarrow> connect_failed env e c2 ws2
                 | Inr info \<Rightarrow>
                     (let c3 = c2\<lparr>server_info := info\<rparr>;
                          ws3 = snd (send_request env w (initialized_request c3) ''1e-05'' ws2)
                      in (Inr info, c3\<lparr>is_connected := True\<rparr>, ws3)))))"

text \<open>\<^verbatim>\<open>close\<close>.\<close>

definition close :: "mcp_caller \<Rightarrow> worker_state list \<Rightarrow> mcp_caller \<times> worker_state list" where
  "close c ws =
     (c\<lparr>server := None, is_connected := False, server_info := JNull\<rparr>,
      (case server c of Some w \<Rightarrow> stop w ws | None \<Rightarrow> ws))"

text \<open>
  The reading of a reply in \<^verbatim>\<open>execute_mcp_call\<close>: the \<^verbatim>\<open>CustomError\<close> raised for a reply
  with an \<open>error\<close> object (a message that is no string is recorded by its \<^verbatim>\<open>str()\<close>), the
  exception Python raises on a reply that is no object or whose \<open>error\<close> is none
  (recorded as an \<open>AttributeError\<close>), or \<^verbatim>\<open>response.get("result")\<close>.
\<close>

definition call_result :: "py_interp \<Rightarrow> json \<Rightarrow> exn + json" where
  "call_result I response =
     (case response of
        JDict d \<Rightarrow>
          (case map_of d ''error'' of
             Some (JDict ed) \<Rightarrow>
               Inl (CustomError \<lparr>err_code = INTERNAL_ERROR,
                      err_message = (case map_of ed ''message'' of
                                       None \<Rightarrow> ''MCP server error''
                                     | Some m \<Rightarrow> py_str I m),
                      err_data = Some (JDict ed)\<rparr>)
           | Some _ \<Rightarrow> Inl (AttributeError ''error has no attribute 'get' '')
           | None \<Rightarrow>
               (case map_of d ''result'' of None \<Rightarrow> Inr JNull | Some v \<Rightarrow> Inr v))
      | _ \<Rightarrow> Inl (AttributeError ''reply is not an object''))"

text \<open>\<^verbatim>\<open>{"logs": captured_logs} if captured_logs else {}\<close>.\<close>

definition logs_data :: "string list \<Rightarrow> pydict option" where
  "logs_data logs = Some (if logs = [] then [] else [(''logs'', JList (map JStr logs))])"

text \<open>
  \<^verbatim>\<open>execute_mcp_call\<close>: what it returns or raises, and the request (which gets an \<open>id\<close>
  when it had none), the tracer, the caller and the workers after it.
\<close>

definition execute_mcp_call ::
  "('t::{minus,zero}) rpc_env \<Rightarrow> pydict \<Rightarrow> 't tracer \<Rightarrow> mcp_caller \<Rightarrow> worker_state list
     \<Rightarrow> (exn + json) \<times> pydict \<times> 't tracer \<times> mcp_caller \<times> worker_state list" where
  "execute_mcp_call env input_request tr c ws =
     (case (if is_connected c then server c else None) of
        None \<Rightarrow>
          (Inl (CustomError \<lparr>err_code = CONNECTION_CLOSED, err_message = ''Not connected'',
                  err_data = None\<rparr>),
           input_request, tr, c, ws)
      | Some w \<Rightarrow>
          (if map_of input_request ''method'' = Some (JStr ''initialize'') then
             (if truthy (server_info c)
              then (Inr (convert_to_dict (server_info c)), input_request, tr, c, ws)
              else (Inl (CustomError \<lparr>err_code = INVALID_REQUEST,
                           err_message = ''Please connect first'', err_data = None\<rparr>),
                    input_request, tr, c, ws))
           else
             (let (req, c1) =
                    (if map_of input_request ''id'' = None
                     then (dict_set input_request ''id'' (JInt (request_message_id c)),
                           c\<lparr>request_message_id := request_message_id c + 1\<rparr>)
                     else (input_request, c));
                  (res, ws1) = send_request env w (JDict req) ''30.0'' ws;
                  logs = logs_data (captured_logs env w (sent_to ws1 w));
                  failed = (\<lambda>e. (Inl e, req,
                     merge_child_trace (penv env) ''mcpCall.server'' ''mcpCall'' False (JList [])
                       logs tr, c1, ws1))
              in case res of
                   Inl e \<Rightarrow> failed e
                 | Inr response \<Rightarrow>
                     (case call_result (interp (penv env)) response of
                        Inl e \<Rightarrow> failed e
                      | Inr result \<Rightarrow>
                          (Inr (convert_to_dict result), req,
                           merge_child_trace (penv env) ''executeMcpCall'' ''executeMcpCall'' True
                             (JList []) logs tr, c1, ws1)))))"

section \<open>Dispatcher: \<^verbatim>\<open>app/handlers/rpc.py\<close>\<close>

text \<open>\<^verbatim>\<open>McpServerConfiguration\<close> (\<^verbatim>\<open>schema.py\<close>), the server descriptor of a request.\<close>

record server_configuration =
  sc_protocol_version :: string
  sc_jsonrpc :: string
  sc_type :: string
  sc_command :: string
  sc_args :: "string list option"
  sc_cwd :: "string option"
  sc_stderr :: "json option"
  sc_env :: "(string \<times> string) list option"
  sc_version :: "string option"

text \<open>
  What the dispatcher reads from outside: all that the bridge reads, the validation
  \<^verbatim>\<open>CustomRequestMeta(**meta)\<close> of a dict by pydantic (the server descriptor, or the text
  of the \<^verbatim>\<open>ValidationError\<close>), and the \<^verbatim>\<open>uuid4\<close> drawn for a trace without id.
\<close>

record 't dispatch_env =
  renv :: "'t rpc_env"
  validate_meta :: "pydict \<Rightarrow> string + server_configuration"
  uuid4 :: string

text \<open>The values of \<^verbatim>\<open>handlers_map\<close>: a function (an outlet-level method, handled in
  place), \<^verbatim>\<open>True\<close> (forwarded to the worker) or \<^verbatim>\<open>False\<close> (not supported).\<close>

datatype handler = Outlet "pydict \<Rightarrow> exn + json" | ServerLevel | Unsupported

fun is_unsupported :: "handler \<Rightarrow> bool" where
  "is_unsupported Unsupported = True"
| "is_unsupported h = False"

text \<open>The handler of \<^verbatim>\<open>logging/setLevel\<close>:
  \<^verbatim>\<open>params.get("params", {}).get("level", "info")\<close> on the request.\<close>

definition set_level_handler :: "pydict \<Rightarrow> exn + json" where
  "set_level_handler request =
     (case (case map_of request ''params'' of
              None \<Rightarrow> Inr (JStr ''info'')
            | Some (JDict pd) \<Rightarrow>
                Inr (case map_of pd ''level'' of None \<Rightarrow> JStr ''info'' | Some v \<Rightarrow> v)
            | Some _ \<Rightarrow> Inl (AttributeError ''params has no attribute 'get' '')) of
        Inl e \<Rightarrow> Inl e
      | Inr level \<Rightarrow>
          Inr (JDict [(''result'', JDict [(''_meta'', JDict [(''traceLevel'', level)])])]))"

definition handlers_map :: "(string \<times> handler) list" where
  "handlers_map =
     [(''ping'', Outlet (\<lambda>request. Inr (JDict [(''result'', JNull)]))),
      (''logging/setLevel'', Outlet set_level_handler),
      (''notifications/initialized'', Outlet (\<lambda>request. Inr (JDict [(''result'', JNull)]))),
      (''initialize'', ServerLevel),
      (''prompts/get'', ServerLevel),
      (''prompts/list'', ServerLevel),
      (''resources/list'', ServerLevel),
      (''resources/templates/list'', ServerLevel),
      (''resources/read'', ServerLevel),
      (''tools/call'', ServerLevel),
      (''tools/list'', ServerLevel),
      (''completion/complete'', ServerLevel),
      (''notifications/roots/list_changed'', Unsupported),
      (''resources/unsubscribe'', Unsupported),
      (''resources/subscribe'', Unsupported),
      (''sampling/createMessage'', Unsupported),
      (''roots/list'', Unsupported)]"

text \<open>\<^verbatim>\<open>[key for key, value in handlers_map.items() if value is not False]\<close>.\<close>

definition supported_methods :: "string list" where
  "supported_methods = map fst (filter (\<lambda>kv. \<not> is_unsupported (snd kv)) handlers_map)"

definition method_not_found :: custom_error where
  "method_not_found =
     \<lparr>err_code = METHOD_NOT_FOUND,
      err_message = ''Rpc supporting only '' @ join_comma supported_methods @ '' methods'',
      err_data = None\<rparr>"

text \<open>\<^verbatim>\<open>handlers_map.get(method)\<close>: a list or a dict cannot be hashed, and no other value
  than a string equals a key.\<close>

definition lookup_handler :: "json \<Rightarrow> exn + handler option" where
  "lookup_handler method =
     (case method of
        JStr s \<Rightarrow> Inr (map_of handlers_map s)
      | JList xs \<Rightarrow> Inl (TypeError ''unhashable type: 'list' '')
      | JDict d \<Rightarrow> Inl (TypeError ''unhashable type: 'dict' '')
      | _ \<Rightarrow> Inr None)"

text \<open>
  The response of the dispatcher. The members of its \<open>_meta\<close>, the server descriptor
  and the trace, are kept as fields; \<open>rsp_error\<close> is the error object before \<open>_meta\<close> is
  put into its data, \<open>rsp_result\<close> the result before \<open>_meta\<close> is put into it.
\<close>

record 't rpc_response =
  rsp_jsonrpc :: json
  rsp_id :: "json option"
  rsp_error :: "pydict option"
  rsp_result :: "pydict option"
  rsp_server :: "server_configuration option"
  rsp_trace :: "'t trace_out"

text \<open>\<^verbatim>\<open>get_trace_id(handler_input.data, "id")\<close> (\<^verbatim>\<open>handlers/helpers.py\<close>).\<close>

definition get_trace_id :: "'t dispatch_env \<Rightarrow> json \<Rightarrow> string" where
  "get_trace_id env args =
     (case args of
        JDict d \<Rightarrow>
          (case map_of d ''id'' of
             None \<Rightarrow> uuid4 env
           | Some JNull \<Rightarrow> uuid4 env
           | Some v \<Rightarrow> py_str (interp (penv (renv env))) v)
      | _ \<Rightarrow> uuid4 env)"

text \<open>
  The first step of \<^verbatim>\<open>generate_jsonrpc_response\<close>: the server descriptor of the
  request's \<open>_meta\<close>, if it has one that validates. The \<^verbatim>\<open>TypeError\<close> of \<^verbatim>\<open>**\<close> on a
  \<open>_meta\<close> that is no dict and the \<^verbatim>\<open>ValidationError\<close> are caught there; the
  \<^verbatim>\<open>AttributeError\<close> of \<^verbatim>\<open>.get\<close> on a request or on \<open>params\<close> that is no dict is not.
\<close>

definition response_server :: "'t dispatch_env \<Rightarrow> json \<Rightarrow> exn + server_configuration option" where
  "response_server env rdata =
     (if \<not> truthy rdata then Inr None
      else case rdata of
        JDict d \<Rightarrow>
          (case map_of d ''params'' of
             None \<Rightarrow> Inr None
           | Some p \<Rightarrow>
               (if \<not> truthy p then Inr None
                else case p of
                  JDict pd \<Rightarrow>
                    (case map_of pd ''_meta'' of
                       Some (JDict md) \<Rightarrow>
                         (case validate_meta env md of
                            Inr cfg \<Rightarrow> Inr (Some cfg)
                          | Inl msg \<Rightarrow> Inr None)
                     | _ \<Rightarrow> Inr None)
                | _ \<Rightarrow> Inl (AttributeError ''params has no attribute 'get' '')))
      | _ \<Rightarrow> Inl (AttributeError ''request has no attribute 'get' ''))"

text \<open>\<^verbatim>\<open>data.get("jsonrpc", "2.0") if data else "2.0"\<close> and the \<open>id\<close> the response echoes,
  for a request that is a dict or falsy.\<close>

definition response_jsonrpc :: "json \<Rightarrow> json" where
  "response_jsonrpc rdata =
     (case rdata of
        JDict d \<Rightarrow> (case map_of d ''jsonrpc'' of None \<Rightarrow> JStr ''2.0'' | Some v \<Rightarrow> v)
      | _ \<Rightarrow> JStr ''2.0'')"

definition response_id :: "json \<Rightarrow> json option" where
  "response_id rdata = (case rdata of JDict d \<Rightarrow> map_of d ''id'' | _ \<Rightarrow> None)"

text \<open>
  \<^verbatim>\<open>generate_jsonrpc_response(data, tracer, result, error)\<close>: the response, or the exception
  it raises (the \<^verbatim>\<open>AttributeError\<close> above, or the \<^verbatim>\<open>TypeError\<close> of \<^verbatim>\<open>**\<close> on a truthy
  result that is no dict), and the tracer after it.
\<close>

definition generate_jsonrpc_response ::
  "('t::minus) dispatch_env \<Rightarrow> json \<Rightarrow> 't tracer \<Rightarrow> json \<Rightarrow> pydict option
     \<Rightarrow> (exn + 't rpc_response) \<times> 't tracer" where
  "generate_jsonrpc_response env rdata tr result err_opt =
     (case response_server env rdata of
        Inl e \<Rightarrow> (Inl e, tr)
      | Inr server_config \<Rightarrow>
          (let (trace, tr1) = get_trace (penv (renv env)) (err_opt = None) tr in
           case (case err_opt of Some err \<Rightarrow> (if err \<noteq> [] then Some err else None)
                 | None \<Rightarrow> None) of
             Some err \<Rightarrow>
               (Inr \<lparr>rsp_jsonrpc = response_jsonrpc rdata, rsp_id = response_id rdata,
                     rsp_error = Some err, rsp_result = None, rsp_server = server_config,
                     rsp_trace = trace\<rparr>, tr1)
           | None \<Rightarrow>
               (case (if truthy result
                      then (case result of
                              JDict rd \<Rightarrow> Inr rd
                            | _ \<Rightarrow> Inl (TypeError ''result is not a mapping''))
                      else Inr []) of
                  Inl e \<Rightarrow> (Inl e, tr1)
                | Inr rd \<Rightarrow>
                    (Inr \<lparr>rsp_jsonrpc = response_jsonrpc rdata, rsp_id = response_id rdata,
                          rsp_error = None, rsp_result = Some rd, rsp_server = server_config,
                          rsp_trace = trace\<rparr>, tr1))))"

text \<open>The \<^verbatim>\<open>CustomError\<close> of a request without a usable \<open>_meta\<close>.\<close>

definition invalid_meta :: "string \<Rightarrow> custom_error" where
  "invalid_meta reason =
     \<lparr>err_code = INVALID_REQUEST,
      err_message = ''Request _meta must be including correct server configuration'',
      err_data = Some (JDict [(''reason'', JStr reason)])\<rparr>"

text \<open>
  The validation of the request at the head of \<^verbatim>\<open>rpc_handler\<close>: the request as a dict and
  its server descriptor, or what is raised. Only a \<^verbatim>\<open>ValidationError\<close> is turned into the
  \<^verbatim>\<open>CustomError\<close>; the \<^verbatim>\<open>AttributeError\<close> of \<^verbatim>\<open>.get\<close> and the \<^verbatim>\<open>TypeError\<close> of \<^verbatim>\<open>**\<close> on a
  \<open>_meta\<close> that is no dict pass.
\<close>

definition validate_request :: "'t dispatch_env \<Rightarrow> json \<Rightarrow> exn + pydict \<times> server_configuration" where
  "validate_request env request_data =
     (if \<not> truthy request_data then Inl (CustomError (invalid_meta ''Missing _meta in params''))
      else case request_data of
        JDict d \<Rightarrow>
          (case map_of d ''params'' of
             None \<Rightarrow> Inl (CustomError (invalid_meta ''Missing _meta in params''))
           | Some p \<Rightarrow>
               (if \<not> truthy p then Inl (CustomError (invalid_meta ''Missing _meta in params''))
                else case p of
                  JDict pd \<Rightarrow>
                    (case map_of pd ''_meta'' of
                       None \<Rightarrow> Inl (CustomError (invalid_meta ''Missing _meta in params''))
                     | Some m \<Rightarrow>
                         (if \<not> truthy m
                          then Inl (CustomError (invalid_meta ''Missing _meta in params''))
                          else case m of
                            JDict md \<Rightarrow>
                              (case validate_meta env md of
                                 Inl msg \<Rightarrow> Inl (CustomError (invalid_meta msg))
                               | Inr cfg \<Rightarrow> Inr (d, cfg))
                          | _ \<Rightarrow> Inl (TypeError ''argument after ** must be a mapping'')))
                | _ \<Rightarrow> Inl (AttributeError ''params has no attribute 'get' '')))
      | _ \<Rightarrow> Inl (AttributeError ''request has no attribute 'get' ''))"

text \<open>
  The state a call of \<^verbatim>\<open>rpc_handler\<close> works on: its tracer, its \<^verbatim>\<open>mcp_caller\<close> variable,
  the workers made so far, and the argument lists \<^verbatim>\<open>parse_mcp_server_params\<close> was called
  with so far.
\<close>

record 't call_state =
  cs_tracer :: "'t tracer"
  cs_caller :: "mcp_caller option"
  cs_workers :: "worker_state list"
  cs_resolver_calls :: "string list option list"

definition span_step :: "('t::minus) dispatch_env \<Rightarrow> string \<Rightarrow> pydict option \<Rightarrow> 't call_state \<Rightarrow> 't call_state" where
  "span_step env name d st =
     st\<lparr>cs_tracer := snd (record_span (penv (renv env)) name None d (cs_tracer st))\<rparr>"

text \<open>\<^verbatim>\<open>parse_mcp_server_params(meta_params.server.args)\<close>: \<^verbatim>\<open>len(None)\<close> raises, after the
  environment was set up.\<close>

definition resolve_args :: "uv_env \<Rightarrow> string list option \<Rightarrow> exn + uv_params" where
  "resolve_args uv args =
     (case args of
        Some a \<Rightarrow> parse_mcp_server_params uv a
      | None \<Rightarrow>
          (case setup_uv_environment uv of
             Inl e \<Rightarrow> Inl e
           | Inr cache_dir \<Rightarrow> Inl (TypeError ''object of type 'NoneType' has no len()'')))"

text \<open>The \<^verbatim>\<open>McpCallerConfiguration\<close> the dispatcher builds from the server descriptor and
  the resolver's result.\<close>

definition caller_configuration :: "server_configuration \<Rightarrow> uv_params \<Rightarrow> caller_config" where
  "caller_configuration cfg uv_params =
     \<lparr>cfg_protocol_version = sc_protocol_version cfg, cfg_jsonrpc = sc_jsonrpc cfg,
      cfg_type = sc_type cfg, cfg_args = sc_args cfg,
      cfg_module_path = module_path uv_params, cfg_package_name = package_name uv_params,
      cfg_function_name = function_name uv_params\<rparr>"

text \<open>The branch of \<^verbatim>\<open>rpc_handler\<close> for a forwarded method (\<^verbatim>\<open>handler is True\<close>).\<close>

definition forward ::
  "('t::{minus,zero}) dispatch_env \<Rightarrow> pydict \<Rightarrow> server_configuration \<Rightarrow> json \<Rightarrow> 't call_state
     \<Rightarrow> (exn + 't rpc_response) \<times> 't call_state" where
  "forward env request cfg method st =
     (if map_of request ''id'' = None
      then (Inl (CustomError \<lparr>err_code = METHOD_NOT_FOUND,
                   err_message = ''Method not found: '' @ py_str (interp (penv (renv env))) method,
                   err_data = None\<rparr>), st)
      else
        (let st1 = span_step env ''extractingServerConfig'' None st in
         if \<not> startswith (sc_command cfg) ''uv''
         then (Inl (CustomError \<lparr>err_code = INVALID_REQUEST,
                      err_message = ''Only uv or uvx command is supported for now'',
                      err_data = None\<rparr>), st1)
         else
           (let st2 = st1\<lparr>cs_resolver_calls := cs_resolver_calls st1 @ [sc_args cfg]\<rparr> in
            case resolve_args (uvenv (renv env)) (sc_args cfg) of
              Inl e \<Rightarrow> (Inl e, st2)
            | Inr uv_params \<Rightarrow>
                (let st3 = span_step env ''connectToServer'' None st2;
                     c0 = new_mcp_caller (caller_configuration cfg uv_params);
                     (conn, c1, ws1) = connect (renv env) c0 (cs_workers st3);
                     st4 = st3\<lparr>cs_caller := Some c1, cs_workers := ws1\<rparr>
                 in case conn of
                      Inl e \<Rightarrow> (Inl e, st4)
                    | Inr info \<Rightarrow>
                        (let st5 = span_step env ''executeMcpCall''
                                     (Some [(''method'', method)]) st4;
                             (res, req, tr, c2, ws2) =
                                execute_mcp_call (renv env) request (cs_tracer st5) c1
                                  (cs_workers st5);
                             st6 = st5\<lparr>cs_tracer := tr, cs_caller := Some c2, cs_workers := ws2\<rparr>
                         in case res of
                              Inl e \<Rightarrow> (Inl e, st6)
                            | Inr result \<Rightarrow>
                                (let (out, tr') =
                                       generate_jsonrpc_response env (JDict req) (cs_tracer st6)
                                         result None
                                 in (out, st6\<lparr>cs_tracer := tr'\<rparr>)))))))"

text \<open>\<^verbatim>\<open>request_data.get("method", "")\<close>.\<close>

definition request_method :: "pydict \<Rightarrow> json" where
  "request_method request = (case map_of request ''method'' of None \<Rightarrow> JStr [] | Some v \<Rightarrow> v)"

text \<open>The \<^verbatim>\<open>try\<close> block of \<^verbatim>\<open>rpc_handler\<close>.\<close>

definition rpc_body ::
  "('t::{minus,zero}) dispatch_env \<Rightarrow> json \<Rightarrow> 't call_state
     \<Rightarrow> (exn + 't rpc_response) \<times> 't call_state" where
  "rpc_body env request_data st0 =
     (let st = span_step env ''inputValidation'' None st0 in
      case validate_request env request_data of
        Inl e \<Rightarrow> (Inl e, st)
      | Inr (request, cfg) \<Rightarrow>
          (let method = request_method request in
           case lookup_handler method of
             Inl e \<Rightarrow> (Inl e, st)
           | Inr None \<Rightarrow> (Inl (CustomError method_not_found), st)
           | Inr (Some (Outlet h)) \<Rightarrow>
               (let st1 = span_step env ''outletHandler'' None st in
                case h request of
                  Inl e \<Rightarrow> (Inl e, st1)
                | Inr r \<Rightarrow>
                    (let result = (case r of
                                     JDict rd \<Rightarrow> (case map_of rd ''result'' of
                                                     None \<Rightarrow> JNull | Some v \<Rightarrow> v)
                                   | _ \<Rightarrow> JNull);
                         (out, tr') =
                            generate_jsonrpc_response env request_data (cs_tracer st1) result None
                     in (out, st1\<lparr>cs_tracer := tr'\<rparr>)))
           | Inr (Some Unsupported) \<Rightarrow> (Inl (CustomError method_not_found), st)
           | Inr (Some ServerLevel) \<Rightarrow> forward env request cfg method st))"

text \<open>What a call of \<^verbatim>\<open>rpc_handler\<close> leaves: the response it returns or the exception that
  leaves it, and the workers and the resolver calls of the call.\<close>

record 't handler_result =
  outcome :: "exn + 't rpc_response"
  workers_after :: "worker_state list"
  resolver_calls :: "string list option list"

text \<open>The state at the start of a call: a new tracer, no bridge, no worker.\<close>

definition initial_call_state :: "'t dispatch_env \<Rightarrow> nat \<Rightarrow> json \<Rightarrow> 't call_state" where
  "initial_call_state env n rdata =
     \<lparr>cs_tracer = new_tracer (penv (renv env)) n (get_trace_id env rdata) None None,
      cs_caller = None, cs_workers = [], cs_resolver_calls = []\<rparr>"

text \<open>
  \<^verbatim>\<open>rpc_handler\<close>, for one call that holds the lock: the \<^verbatim>\<open>try\<close> block, the two handlers
  (a \<^verbatim>\<open>CustomError\<close> is answered as it is, any other exception after \<^verbatim>\<open>format_error\<close>),
  and the \<^verbatim>\<open>finally\<close> clause that closes the bridge if one was made. \<open>n\<close> is the number
  of clock readings taken before the call.
\<close>

definition rpc_handler :: "('t::{minus,zero}) dispatch_env \<Rightarrow> nat \<Rightarrow> json \<Rightarrow> 't handler_result" where
  "rpc_handler env n rdata =
     (let (res, st) = rpc_body env rdata (initial_call_state env n rdata);
          out = (case res of
                   Inr r \<Rightarrow> Inr r
                 | Inl (CustomError e) \<Rightarrow>
                     fst (generate_jsonrpc_response env rdata (cs_tracer st) JNull
                            (Some (to_response e)))
                 | Inl ex \<Rightarrow>
                     fst (generate_jsonrpc_response env rdata (cs_tracer st) JNull
                            (Some (to_response (format_error (interp (penv (renv env)))
                                                   (Raised ex))))));
          ws = (case cs_caller st of
                  Some c \<Rightarrow> snd (close c (cs_workers st))
                | None \<Rightarrow> cs_workers st)
      in \<lparr>outcome = out, workers_after = ws, resolver_calls = cs_resolver_calls st\<rparr>)"

text \<open>The error code and message of a response, if it is an error response.\<close>

definition response_code :: "(exn + 't rpc_response) \<Rightarrow> json option" where
  "response_code out =
     (case out of
        Inr r \<Rightarrow> (case rsp_error r of Some err \<Rightarrow> map_of err ''code'' | None \<Rightarrow> None)
      | Inl e \<Rightarrow> None)"

definition response_message :: "(exn + 't rpc_response) \<Rightarrow> json option" where
  "response_message out =
     (case out of
        Inr r \<Rightarrow> (case rsp_error r of Some err \<Rightarrow> map_of err ''message'' | None \<Rightarrow> None)
      | Inl e \<Rightarrow> None)"

section \<open>Concrete inputs\<close>

text \<open>A machine on which \<open>pkg\<close> is importable already and advertises no entry points.\<close>

definition installed_env :: uv_env where
  "installed_env =
     \<lparr>setup_uv_environment = Inr ''/mnt/cache'',
      is_package_installed = (\<lambda>p. True),
      subprocess_run = (\<lambda>cmd. None),
      package_metadata = (\<lambda>p. Inr []),
      pip_inspect = (\<lambda>p. None)\<rparr>"

text \<open>An interpreter for the examples: it prints every float, list and dict alike and
  coerces nothing to \<^verbatim>\<open>int\<close>.\<close>

definition plain_interp :: py_interp where
  "plain_interp = \<lparr>py_repr = (\<lambda>v. ''<object>''), lax_int = (\<lambda>v. None)\<rparr>"

text \<open>A clock that reads 0, 1, 2, ... milliseconds, with \<^verbatim>\<open>float\<close> fields that take ints.\<close>

definition counting_penv :: "int py_env" where
  "counting_penv =
     \<lparr>interp = plain_interp, time_ms = (\<lambda>n. int n),
      datetime_now = (\<lambda>n. ''2026-01-01T00:00:00''),
      to_float = (\<lambda>v. case v of JInt i \<Rightarrow> Some i | _ \<Rightarrow> None)\<rparr>"

text \<open>Three workers: one that answers the \<^verbatim>\<open>initialize\<close> request (the first it is sent)
  with a handshake result and nothing after it, one that answers it with an empty
  result, and one that never answers.\<close>

definition handshake_reply :: "pydict \<Rightarrow> json" where
  "handshake_reply result =
     JDict [(''jsonrpc'', JStr ''2.0''), (''id'', JInt 1), (''result'', JDict result)]"

definition handshake_worker :: "nat \<Rightarrow> json list \<Rightarrow> string \<Rightarrow> reply" where
  "handshake_worker w sent timeout =
     (if length sent = 1
      then Reply (handshake_reply [(''protocolVersion'', JStr ''2025-03-26'')])
      else NoData)"

definition empty_result_worker :: "nat \<Rightarrow> json list \<Rightarrow> string \<Rightarrow> reply" where
  "empty_result_worker w sent timeout =
     (if length sent = 1 then Reply (handshake_reply []) else NoData)"

definition silent_worker :: "nat \<Rightarrow> json list \<Rightarrow> string \<Rightarrow> reply" where
  "silent_worker w sent timeout = NoData"

definition env_with :: "(nat \<Rightarrow> json list \<Rightarrow> string \<Rightarrow> reply) \<Rightarrow> int rpc_env" where
  "env_with wk =
     \<lparr>penv = counting_penv, uvenv = installed_env, worker = wk,
      captured_logs = (\<lambda>w sent. [])\<rparr>"

definition pkg_config :: caller_config where
  "pkg_config =
     \<lparr>cfg_protocol_version = ''2025-03-26'', cfg_jsonrpc = ''2.0'', cfg_type = ''stdio'',
      cfg_args = Some [''pkg''], cfg_module_path = ''pkg'', cfg_package_name = ''pkg'',
      cfg_function_name = ''main''\<rparr>"

text \<open>
  A validation of \<open>_meta\<close> for the examples: it asks for a \<open>server\<close> object with a string
  \<open>command\<close>, reads \<open>args\<close> when it is a list of strings, and gives every other field
  its default.
\<close>

definition example_strings :: "json list \<Rightarrow> string list option" where
  "example_strings xs =
     (if list_all (\<lambda>v. case v of JStr s \<Rightarrow> True | _ \<Rightarrow> False) xs
      then Some (map (\<lambda>v. case v of JStr s \<Rightarrow> s | _ \<Rightarrow> []) xs) else None)"

definition example_validate_meta :: "pydict \<Rightarrow> string + server_configuration" where
  "example_validate_meta md =
     (case map_of md ''server'' of
        Some (JDict sd) \<Rightarrow>
          (case map_of sd ''command'' of
             Some (JStr c) \<Rightarrow>
               Inr \<lparr>sc_protocol_version = ''2025-03-26'', sc_jsonrpc = ''2.0'', sc_type = ''stdio'',
                    sc_command = c,
                    sc_args = (case map_of sd ''args'' of
                                 Some (JList xs) \<Rightarrow> example_strings xs | _ \<Rightarrow> None),
                    sc_cwd = None, sc_stderr = None, sc_env = None, sc_version = None\<rparr>
           | _ \<Rightarrow> Inl ''server.command: Input should be a valid string'')
      | _ \<Rightarrow> Inl ''server: Field required'')"

definition dispatch_with :: "(nat \<Rightarrow> json list \<Rightarrow> string \<Rightarrow> reply) \<Rightarrow> int dispatch_env" where
  "dispatch_with wk =
     \<lparr>renv = env_with wk, validate_meta = example_validate_meta,
      uuid4 = ''00000000-0000-4000-8000-000000000000''\<rparr>"

text \<open>Requests: a method call with id 1 for the package \<open>pkg\<close> launched by a given
  command; a \<^verbatim>\<open>ping\<close> whose \<open>_meta\<close> is the string \<^verbatim>\<open>"x"\<close>; a \<^verbatim>\<open>ping\<close> whose \<open>params\<close>
  is the array \<^verbatim>\<open>[1]\<close>; and an unknown method without \<open>params\<close>.\<close>

definition server_request :: "string \<Rightarrow> string \<Rightarrow> json" where
  "server_request method command =
     JDict [(''jsonrpc'', JStr ''2.0''), (''id'', JInt 1), (''method'', JStr method),
            (''params'', JDict [(''_meta'', JDict [(''server'',
               JDict [(''command'', JStr command), (''args'', JList [JStr ''pkg''])])])])]"

definition ping_string_meta_request :: json where
  "ping_string_meta_request =
     JDict [(''jsonrpc'', JStr ''2.0''), (''id'', JInt 1), (''method'', JStr ''ping''),
            (''params'', JDict [(''_meta'', JStr ''x'')])]"

definition ping_array_params_request :: json where
  "ping_array_params_request =
     JDict [(''jsonrpc'', JStr ''2.0''), (''id'', JInt 1), (''method'', JStr ''ping''),
            (''params'', JList [JInt 1])]"

definition unknown_method_request :: json where
  "unknown_method_request =
     JDict [(''jsonrpc'', JStr ''2.0''), (''id'', JInt 1), (''method'', JStr ''no/such'')]"

section \<open>Properties of the ArgumentResolver\<close>

lemma parse_loop_example:
  "parse_loop [''--from'', ''git+https://x'', ''pkg:mod.sub:fn''] initial_parse_state =
     \<lparr>ps_package_name = Some ''pkg'', ps_entry_point = Some ''mod.sub:fn'',
      ps_source_path = Some ''git+https://x'', ps_with_deps = [], ps_index_url = None,
      ps_extra_index_urls = []\<rparr>"
  by (simp add: initial_parse_state_def startswith_def split_first_def)

lemma parse_args_example:
  "parse_args [''--from'', ''git+https://x'', ''pkg:mod.sub:fn''] =
     Inr (''pkg'',
       \<lparr>ps_package_name = Some ''pkg'', ps_entry_point = Some ''mod.sub:fn'',
        ps_source_path = Some ''git+https://x'', ps_with_deps = [], ps_index_url = None,
        ps_extra_index_urls = []\<rparr>)"
  unfolding parse_args_def parse_loop_example by (simp add: truthy_val_def)

lemma resolve_entry_point_example:
  "resolve_entry_point ''pkg'' (Some ''mod.sub:fn'') eps insp = (''mod.sub'', ''fn'')"
  by (simp add: resolve_entry_point_def truthy_val_def rsplit_last_def)

text \<open>
  C8. The argument list \<^verbatim>\<open>["--from", "git+https://x", "pkg:mod.sub:fn"]\<close> parses to the
  package spec \<open>pkg\<close> with the explicit entry \<open>mod.sub:fn\<close> (and the install source
  \<open>git+https://x\<close>); the entry has both a dot and a colon, so entry-point resolution
  splits it at its last colon into the module \<open>mod.sub\<close> and the function \<open>fn\<close>,
  whatever the package metadata says; and whenever \<^verbatim>\<open>parse_mcp_server_params\<close> returns
  for these arguments (no install step raised), its result names that module and function.
\<close>

theorem parse_from_entry_example:
  "parse_args [''--from'', ''git+https://x'', ''pkg:mod.sub:fn''] =
     Inr (''pkg'',
       \<lparr>ps_package_name = Some ''pkg'', ps_entry_point = Some ''mod.sub:fn'',
        ps_source_path = Some ''git+https://x'', ps_with_deps = [], ps_index_url = None,
        ps_extra_index_urls = []\<rparr>)
   \<and> CHR ''.'' \<in> set ''mod.sub:fn'' \<and> CHR '':'' \<in> set ''mod.sub:fn''
   \<and> rsplit_last CHR '':'' ''mod.sub:fn'' = (''mod.sub'', ''fn'')
   \<and> resolve_entry_point ''pkg'' (Some ''mod.sub:fn'') eps insp = (''mod.sub'', ''fn'')
   \<and> (parse_mcp_server_params env [''--from'', ''git+https://x'', ''pkg:mod.sub:fn''] = Inr r
        \<longrightarrow> package_name r = ''pkg'' \<and> entry_point r = Some ''mod.sub:fn''
          \<and> module_path r = ''mod.sub'' \<and> function_name r = ''fn'')"
proof -
  have "parse_mcp_server_params env [''--from'', ''git+https://x'', ''pkg:mod.sub:fn''] = Inr r
        \<Longrightarrow> package_name r = ''pkg'' \<and> entry_point r = Some ''mod.sub:fn''
          \<and> module_path r = ''mod.sub'' \<and> function_name r = ''fn''"
    unfolding parse_mcp_server_params_def parse_args_example
    by (auto simp: resolve_entry_point_example split: sum.splits option.splits)
  then show ?thesis
    using parse_args_example resolve_entry_point_example [of eps insp]
    by (simp add: rsplit_last_def)
qed

theorem parse_from_entry_example_witness:
  "parse_mcp_server_params installed_env [''--from'', ''git+https://x'', ''pkg:mod.sub:fn''] =
     Inr \<lparr>package_name = ''pkg'', module_path = ''mod.sub'', function_name = ''fn'',
          entry_point = Some ''mod.sub:fn'', source_path = Some ''git+https://x'',
          with_deps = [], inspection_data = [], up_entry_points = [],
          install_success = True\<rparr>
   \<and> module_path \<lparr>package_name = ''pkg'', module_path = ''mod.sub'', function_name = ''fn'',
          entry_point = Some ''mod.sub:fn'', source_path = Some ''git+https://x'',
          with_deps = [], inspection_data = [], up_entry_points = [],
          install_success = True\<rparr> = ''mod.sub''"
proof -
  have run: "parse_mcp_server_params installed_env
        [''--from'', ''git+https://x'', ''pkg:mod.sub:fn''] =
     Inr \<lparr>package_name = ''pkg'', module_path = ''mod.sub'', function_name = ''fn'',
          entry_point = Some ''mod.sub:fn'', source_path = Some ''git+https://x'',
          with_deps = [], inspection_data = [], up_entry_points = [],
          install_success = True\<rparr>"
    unfolding parse_mcp_server_params_def parse_args_example
    by (simp add: installed_env_def install_main_def resolve_entry_point_example)
  from parse_from_entry_example [of "[]" "[]" installed_env] run show ?thesis
    by simp
qed

section \<open>Properties of the Tracer\<close>

lemma end_previous_span_status:
  "status (end_previous_span now sp e) \<noteq> StRunning"
  "StRunning \<noteq> status (end_previous_span now sp e)"
  by (simp_all add: end_previous_span_def)

lemma end_previous_span_is_valid: "is_valid (end_previous_span now sp e) = is_valid sp"
  by (simp add: end_previous_span_def)

lemma end_running_no_running:
  "StRunning \<notin> set (map status (fst (end_running env e sps n)))"
  by (induction sps arbitrary: n) (simp_all add: end_previous_span_status split_beta)

lemma end_running_is_valid:
  "map is_valid (fst (end_running env e sps n)) = map is_valid sps"
  by (induction sps arbitrary: n) (simp_all add: end_previous_span_is_valid split_beta)

lemma get_trace_spans:
  "spans (snd (get_trace env ok tr)) = fst (end_running env (\<not> ok) (spans tr) (clock_reads tr))"
  "out_spans (fst (get_trace env ok tr)) = fst (end_running env (\<not> ok) (spans tr) (clock_reads tr))"
  by (auto simp: get_trace_def Let_def split: prod.splits option.splits)

lemma filter_zip_same:
  "filter (\<lambda>(a, b). P a \<and> \<not> P b) (zip xs xs) = []"
  by (induction xs) auto

lemma record_span_spans:
  "spans (snd (record_span env name p d tr)) =
     (if spans tr \<noteq> [] \<and> status (last (spans tr)) = StRunning
      then butlast (spans tr)
           @ [(last (spans tr))\<lparr>duration := Some (time_ms env (clock_reads tr) - start_time (last (spans tr))),
                                status := StSuccess\<rparr>]
      else spans tr)
     @ [fst (record_span env name p d tr)]"
  by (simp add: record_span_def Let_def end_previous_span_def)

lemma record_span_new:
  "status (fst (record_span env name p d tr)) = StRunning"
  "is_valid (fst (record_span env name p d tr))"
  "seq (fst (record_span env name p d tr)) = name"
  by (simp_all add: record_span_def Let_def)

lemma record_span_closed_count:
  "length (filter (\<lambda>(a, b). status a = StRunning \<and> \<not> status b = StRunning)
       (zip (spans tr) (spans (snd (record_span env name p d tr))))) \<le> 1"
proof (cases "spans tr \<noteq> [] \<and> status (last (spans tr)) = StRunning")
  case True
  then have eq: "spans tr = butlast (spans tr) @ [last (spans tr)]" by simp
  let ?c = "(last (spans tr))\<lparr>duration := Some (time_ms env (clock_reads tr) - start_time (last (spans tr))),
                                status := StSuccess\<rparr>"
  have "zip (spans tr) (spans (snd (record_span env name p d tr)))
      = zip (butlast (spans tr) @ [last (spans tr)]) (butlast (spans tr) @ [?c] @ [fst (record_span env name p d tr)])"
    using True eq by (simp add: record_span_spans)
  also have "\<dots> = zip (butlast (spans tr)) (butlast (spans tr)) @ [(last (spans tr), ?c)]"
    by (simp add: zip_append1)
  finally show ?thesis by (simp add: filter_zip_same)
next
  case False
  then have "zip (spans tr) (spans (snd (record_span env name p d tr))) = zip (spans tr) (spans tr)"
    by (auto simp add: record_span_spans zip_append2)
  then show ?thesis by (simp add: filter_zip_same)
qed

lemma merged_span_not_valid:
  "merged_span env now b p st ad sd = Some sp \<Longrightarrow> \<not> is_valid sp"
  by (auto simp: merged_span_def Let_def split: option.splits)

lemma merge_spans_array_not_valid:
  "sp \<in> set (fst (merge_spans_array env sps b p st ad n)) \<Longrightarrow> \<not> is_valid sp"
proof (induction sps arbitrary: n)
  case Nil
  then show ?case by simp
next
  case (Cons x xs)
  then show ?case
    by (cases x) (auto simp: split_beta dest: merged_span_not_valid split: option.splits)
qed

lemma fallback_span_not_valid: "\<not> is_valid (fallback_span env now ct b p st ad)"
  by (simp add: fallback_span_def Let_def)

lemma error_span_not_valid: "\<not> is_valid (error_span env now ct b p st ad msg)"
  by (simp add: error_span_def Let_def)

lemma merge_spans_spans:
  "spans (merge_spans env sps b p st ad tr)
     = spans tr @ fst (merge_spans_array env sps b p st ad (clock_reads tr))"
  by (simp add: merge_spans_def split_beta)

lemma merge_trace_data_spans: "spans (snd (merge_trace_data td ad tr)) = spans tr"
  by (auto simp: merge_trace_data_def Let_def split: option.splits json.splits)

lemma create_fallback_span_spans:
  "spans (create_fallback_span env ct b p st ad tr)
     = spans tr @ [fallback_span env (time_ms env (clock_reads tr)) ct b p st ad]"
  by (simp add: create_fallback_span_def)

lemma merge_child_trace_appends:
  "\<exists>new. spans (merge_child_trace env b p ok ct d tr) = spans tr @ new
         \<and> (\<forall>sp \<in> set new. \<not> is_valid sp)"
proof -
  let ?st = "if ok then StSuccess else StError"
  let ?ad = "case d of None \<Rightarrow> [] | Some x \<Rightarrow> x"
  have fb: "\<exists>new. spans (create_fallback_span env ct b p ?st ?ad t) = spans t @ new
         \<and> (\<forall>sp \<in> set new. \<not> is_valid sp)" for t
    by (simp add: create_fallback_span_spans fallback_span_not_valid)
  have ms: "\<exists>new. spans (merge_spans env sps b p ?st ?ad tr) = spans tr @ new
         \<and> (\<forall>sp \<in> set new. \<not> is_valid sp)" for sps
    using merge_spans_array_not_valid by (fastforce simp: merge_spans_spans)
  show ?thesis
  proof (cases ct)
    case (JDict c)
    show ?thesis
    proof (cases "map_of c ''spans''")
      case None
      with JDict fb [of tr] show ?thesis by (simp add: merge_child_trace_def)
    next
      case (Some v)
      show ?thesis
      proof (cases v)
        case (JList sps)
        let ?tr1 = "merge_spans env sps b p ?st ?ad tr"
        from ms [of sps] obtain new1 where n1: "spans ?tr1 = spans tr @ new1"
          "\<forall>sp \<in> set new1. \<not> is_valid sp" by blast
        show ?thesis
        proof (cases "map_of c ''data''")
          case None
          with JDict Some JList n1 show ?thesis by (simp add: merge_child_trace_def Let_def)
        next
          case (Some td)
          obtain e tr2 where m: "merge_trace_data td ?ad ?tr1 = (e, tr2)" by (cases "merge_trace_data td ?ad ?tr1")
          then have s2: "spans tr2 = spans tr @ new1"
            using merge_trace_data_spans [of td ?ad ?tr1] n1 by simp
          show ?thesis
          proof (cases e)
            case None
            with JDict \<open>map_of c ''spans'' = Some v\<close> JList Some m s2 n1 show ?thesis
              by (simp add: merge_child_trace_def Let_def)
          next
            case (Some ex)
            from fb [of tr2] obtain new2 where
              "spans (create_fallback_span env ct b p ?st ?ad tr2) = spans tr2 @ new2"
              "\<forall>sp \<in> set new2. \<not> is_valid sp" by blast
            with JDict \<open>map_of c ''spans'' = Some v\<close> JList \<open>map_of c ''data'' = Some td\<close> m s2 n1 Some
            show ?thesis
              by (auto simp add: merge_child_trace_def Let_def)
          qed
        qed
      qed (use JDict Some fb [of tr] in \<open>simp_all add: merge_child_trace_def\<close>)
    qed
  next
    case (JList sps)
    with ms [of sps] show ?thesis by (simp add: merge_child_trace_def)
  qed (use fb [of tr] in \<open>simp_all add: merge_child_trace_def\<close>)
qed

lemma merge_child_trace_is_valid:
  "map is_valid (spans (merge_child_trace env b p ok ct d tr))
     = map is_valid (spans tr)
       @ replicate (length (spans (merge_child_trace env b p ok ct d tr)) - length (spans tr)) False"
proof -
  obtain new where n: "spans (merge_child_trace env b p ok ct d tr) = spans tr @ new"
    "\<forall>sp \<in> set new. \<not> is_valid sp" using merge_child_trace_appends by blast
  then have "map is_valid new = replicate (length new) False"
    by (simp add: map_replicate_const [symmetric] cong: map_cong)
  with n show ?thesis by simp
qed

lemma merge_child_trace_new_not_valid:
  "True \<notin> set (map is_valid (drop (length (spans tr)) (spans (merge_child_trace env b p ok ct d tr))))"
proof -
  obtain new where n: "spans (merge_child_trace env b p ok ct d tr) = spans tr @ new"
    "\<forall>sp \<in> set new. \<not> is_valid sp" using merge_child_trace_appends by blast
  then show ?thesis by auto
qed

lemma merge_child_trace_prefix:
  "take (length (spans tr)) (spans (merge_child_trace env b p ok ct d tr)) = spans tr"
proof -
  obtain new where n: "spans (merge_child_trace env b p ok ct d tr) = spans tr @ new"
    using merge_child_trace_appends by blast
  then show ?thesis by simp
qed

lemma record_span_is_valid:
  "map is_valid (spans (snd (record_span env name p d tr))) = map is_valid (spans tr) @ [True]"
proof (cases "spans tr \<noteq> [] \<and> status (last (spans tr)) = StRunning")
  case True
  then have eq: "spans tr = butlast (spans tr) @ [last (spans tr)]" by simp
  have "map is_valid (spans tr) = map is_valid (butlast (spans tr)) @ [is_valid (last (spans tr))]"
    by (subst eq) simp
  with True show ?thesis
    by (simp add: record_span_spans record_span_new)
next
  case False
  then show ?thesis by (auto simp: record_span_spans record_span_new)
qed

lemma get_trace_is_valid:
  "map is_valid (spans (snd (get_trace env ok tr))) = map is_valid (spans tr)"
  by (simp add: get_trace_spans end_running_is_valid)

lemma tracer_step_is_valid:
  "map is_valid (spans (tracer_step env x tr))
     = map is_valid (spans tr)
       @ replicate (length (spans (tracer_step env x tr)) - length (spans tr)) (op_origin x = Recorded)"
proof (cases x)
  case (RecordSpan name p d)
  have "length (spans (snd (record_span env name p d tr))) = Suc (length (spans tr))"
    using arg_cong [OF record_span_is_valid [of env name p d tr], of length] by simp
  with RecordSpan show ?thesis by (simp add: record_span_is_valid)
next
  case (MergeChildTrace b p ok ct d)
  then show ?thesis using merge_child_trace_is_valid [of env b p ok ct d tr] by simp
next
  case (GetTrace ok)
  have "length (spans (snd (get_trace env ok tr))) = length (spans tr)"
    using arg_cong [OF get_trace_is_valid [of env ok tr], of length] by simp
  with GetTrace show ?thesis by (simp add: get_trace_is_valid)
qed

lemma tracer_run_is_valid:
  "map is_valid (spans (tracer_run env ops tr))
     = map is_valid (spans tr) @ map (\<lambda>or. or = Recorded) (span_origins env ops tr)"
proof (induction ops arbitrary: tr)
  case Nil
  then show ?case by simp
next
  case (Cons x xs)
  show ?case
    by (simp add: Cons.IH tracer_step_is_valid)
qed

text \<open>
  C9. \<^verbatim>\<open>record_span\<close> ends at most one span that was running: the last one, if it was
  running, gets the status success and the duration "now minus its start time", every
  other span is left as it was, and the new span, whose status is running, is appended
  after that. The snapshot \<^verbatim>\<open>get_trace\<close> returns holds no span whose status is running, in
  every tracer state, so also after every sequence of tracer operations.
\<close>

theorem record_span_closes_at_most_one_and_get_trace_none_running:
  "spans (snd (record_span env name p d tr)) =
     (if spans tr \<noteq> [] \<and> status (last (spans tr)) = StRunning
      then butlast (spans tr)
           @ [(last (spans tr))\<lparr>duration := Some (time_ms env (clock_reads tr) - start_time (last (spans tr))),
                                status := StSuccess\<rparr>]
      else spans tr)
     @ [fst (record_span env name p d tr)]
   \<and> status (fst (record_span env name p d tr)) = StRunning
   \<and> length (filter (\<lambda>(a, b). status a = StRunning \<and> \<not> status b = StRunning)
        (zip (spans tr) (spans (snd (record_span env name p d tr))))) \<le> 1
   \<and> StRunning \<notin> set (map status (out_spans (fst (get_trace env ok tr))))
   \<and> StRunning \<notin> set (map status (out_spans (fst (get_trace env ok (tracer_run env ops tr)))))"
  using record_span_spans [of env name p d tr] record_span_new(1) [of env name p d tr]
    record_span_closed_count [of tr env name p d]
    end_running_no_running [of env "\<not> ok" "spans tr" "clock_reads tr"]
    end_running_no_running [of env "\<not> ok" "spans (tracer_run env ops tr)"
      "clock_reads (tracer_run env ops tr)"]
  unfolding get_trace_spans by blast

text \<open>
  C10. A span made by \<^verbatim>\<open>record_span\<close> has \<open>is_valid\<close> true, and \<^verbatim>\<open>record_span\<close> changes
  the flag of no other span. Every span \<^verbatim>\<open>merge_child_trace\<close> appends has \<open>is_valid\<close>
  false, be it a merged child span, a fallback span or an error span, and the spans that
  were there stay as they were. Hence, in every state reached from a new tracer by a
  sequence of operations, the flags of the spans, in order, say exactly which spans were
  recorded and which were absorbed.
\<close>

theorem is_valid_tells_recorded_from_absorbed:
  "is_valid (fst (record_span env name p d tr))
   \<and> map is_valid (spans (snd (record_span env name p d tr))) = map is_valid (spans tr) @ [True]
   \<and> take (length (spans tr)) (spans (merge_child_trace env b q ok ct ad tr)) = spans tr
   \<and> True \<notin> set (map is_valid
        (drop (length (spans tr)) (spans (merge_child_trace env b q ok ct ad tr))))
   \<and> map_option is_valid (merged_span env now b q st ad' sd) \<noteq> Some True
   \<and> \<not> is_valid (fallback_span env now ct b q st ad')
   \<and> \<not> is_valid (error_span env now ct b q st ad' msg)
   \<and> map is_valid (spans (tracer_run env ops (new_tracer env n tid parent a0)))
       = map (\<lambda>or. or = Recorded) (span_origins env ops (new_tracer env n tid parent a0))"
proof -
  have "map_option is_valid (merged_span env now b q st ad' sd) \<noteq> Some True"
    using merged_span_not_valid [of env now b q st ad' sd] by (auto simp: map_option_case split: option.splits)
  moreover have "map is_valid (spans (tracer_run env ops (new_tracer env n tid parent a0)))
       = map (\<lambda>or. or = Recorded) (span_origins env ops (new_tracer env n tid parent a0))"
    using tracer_run_is_valid [of env ops "new_tracer env n tid parent a0"]
    by (simp add: new_tracer_def)
  ultimately show ?thesis
    using record_span_new(2) [of env name p d tr] record_span_is_valid [of env name p d tr]
      merge_child_trace_prefix [of tr env b q ok ct ad]
      merge_child_trace_new_not_valid [of tr env b q ok ct ad]
      fallback_span_not_valid [of env now ct b q st ad']
      error_span_not_valid [of env now ct b q st ad' msg]
    by blast
qed

section \<open>Properties of the ErrorModel\<close>

lemma remove_all_prefix: "p \<noteq> [] \<Longrightarrow> remove_all p (p @ rest) = remove_all p rest"
  by (cases p) auto

lemma format_error_custom: "format_error I (Raised (CustomError e)) = e"
  by (simp add: format_error_def)

lemma format_error_exception:
  "(\<forall>e. ex \<noteq> CustomError e) \<Longrightarrow>
   format_error I (Raised ex) =
     \<lparr>err_code = INTERNAL_ERROR, err_message = exn_str ex, err_data = None\<rparr>"
  by (cases ex) (simp_all add: format_error_def)

lemma format_error_dict:
  "map_of d ''code'' \<noteq> None \<Longrightarrow> map_of d ''message'' \<noteq> None \<Longrightarrow>
   validate_error_response I d = Some (c, m, dat) \<Longrightarrow>
   format_error I (Value (JDict d)) =
     \<lparr>err_code = c, err_message = remove_all (''MCP error '' @ str_int c @ '': '') m,
      err_data = dat\<rparr>"
  by (simp add: format_error_def)

lemma format_error_other:
  "(\<forall>d. v = JDict d \<longrightarrow>
      map_of d ''code'' = None \<or> map_of d ''message'' = None
      \<or> validate_error_response I d = None) \<Longrightarrow>
   format_error I (Value v) =
     \<lparr>err_code = INTERNAL_ERROR, err_message = ''Unknown error'',
      err_data = Some (JDict [(''error'', if v = JNull then JNull else JStr (py_str I v))])\<rparr>"
  by (cases v) (auto simp add: format_error_def)

text \<open>
  C7, as stated, fails. A standard exception (here a \<^verbatim>\<open>RuntimeError("boom")\<close>) becomes an
  InternalError whose \<open>data\<close> is empty: its string form is the \<open>message\<close>, and the
  response made of it has no \<open>data\<close> member. And the text \<^verbatim>\<open>MCP error 5: \<close> is removed
  from a message in which it is no prefix.
\<close>

theorem format_error_string_form_not_in_data:
  "format_error plain_interp (Raised (RuntimeError ''boom'')) =
     \<lparr>err_code = - 32603, err_message = ''boom'', err_data = None\<rparr>
   \<and> to_response (format_error plain_interp (Raised (RuntimeError ''boom''))) =
       [(''code'', JInt (- 32603)), (''message'', JStr ''boom'')]
   \<and> format_error plain_interp
        (Value (JDict [(''code'', JInt 5), (''message'', JStr ''a MCP error 5: b'')])) =
       \<lparr>err_code = 5, err_message = ''a b'', err_data = None\<rparr>"
  by (simp add: format_error_def to_response_def INTERNAL_ERROR_def validate_error_response_def
      str_int_def digit_char_def)

text \<open>
  C7, amended. \<^verbatim>\<open>format_error\<close> returns a \<^verbatim>\<open>CustomError\<close> unchanged. A dict with the keys
  \<open>code\<close> and \<open>message\<close> that validates as a \<^verbatim>\<open>CustomErrorResponse\<close> becomes the error of
  its code and data, whose message is the dict's with every occurrence of
  \<^verbatim>\<open>MCP error {code}: \<close> removed (so a leading one is stripped). Any other exception becomes
  InternalError (-32603) with its string form as the message and no data. Any other value
  becomes InternalError with the message \<^verbatim>\<open>Unknown error\<close> and the data
  \<^verbatim>\<open>{"error": str(value)}\<close> (\<^verbatim>\<open>{"error": None}\<close> for \<^verbatim>\<open>None\<close>).
\<close>

theorem format_error_cases:
  "format_error I (Raised (CustomError e)) = e
   \<and> (map_of d ''code'' \<noteq> None \<and> map_of d ''message'' \<noteq> None
        \<and> validate_error_response I d = Some (c, m, dat)
      \<longrightarrow> format_error I (Value (JDict d)) =
            \<lparr>err_code = c, err_message = remove_all (''MCP error '' @ str_int c @ '': '') m,
             err_data = dat\<rparr>)
   \<and> remove_all (''MCP error '' @ str_int c @ '': '') ((''MCP error '' @ str_int c @ '': '') @ rest)
       = remove_all (''MCP error '' @ str_int c @ '': '') rest
   \<and> ((\<forall>e. ex \<noteq> CustomError e)
      \<longrightarrow> format_error I (Raised ex) =
            \<lparr>err_code = INTERNAL_ERROR, err_message = exn_str ex, err_data = None\<rparr>)
   \<and> ((\<forall>d. v = JDict d \<longrightarrow>
          map_of d ''code'' = None \<or> map_of d ''message'' = None
          \<or> validate_error_response I d = None)
      \<longrightarrow> format_error I (Value v) =
            \<lparr>err_code = INTERNAL_ERROR, err_message = ''Unknown error'',
             err_data = Some (JDict [(''error'',
                if v = JNull then JNull else JStr (py_str I v))])\<rparr>)
   \<and> INTERNAL_ERROR = - 32603"
proof -
  have "remove_all (''MCP error '' @ str_int c @ '': '') ((''MCP error '' @ str_int c @ '': '') @ rest)
       = remove_all (''MCP error '' @ str_int c @ '': '') rest"
    by (rule remove_all_prefix) simp
  then show ?thesis
    using format_error_custom [of I e] format_error_dict [of d I c m dat]
      format_error_exception [of ex I] format_error_other [of v I]
    by (simp add: INTERNAL_ERROR_def)
qed

theorem format_error_cases_witness:
  "format_error plain_interp
     (Value (JDict [(''code'', JInt 5), (''message'', JStr ''MCP error 5: bad'')])) =
     \<lparr>err_code = 5, err_message = ''bad'', err_data = None\<rparr>
   \<and> format_error plain_interp (Raised (TimeoutError ''slow'')) =
     \<lparr>err_code = - 32603, err_message = ''slow'', err_data = None\<rparr>
   \<and> format_error plain_interp (Value (JStr ''oops'')) =
     \<lparr>err_code = - 32603, err_message = ''Unknown error'',
      err_data = Some (JDict [(''error'', JStr ''oops'')])\<rparr>
   \<and> format_error plain_interp (Value JNull) =
     \<lparr>err_code = - 32603, err_message = ''Unknown error'',
      err_data = Some (JDict [(''error'', JNull)])\<rparr>"
proof -
  let ?d = "[(''code'', JInt 5), (''message'', JStr ''MCP error 5: bad'')]"
  have v: "validate_error_response plain_interp ?d = Some (5, ''MCP error 5: bad'', None)"
    by (simp add: validate_error_response_def)
  have k: "map_of ?d ''code'' \<noteq> None \<and> map_of ?d ''message'' \<noteq> None" by simp
  have r: "remove_all (''MCP error '' @ str_int 5 @ '': '') ''MCP error 5: bad'' = ''bad''"
    by (simp add: str_int_def digit_char_def)
  have d: "format_error plain_interp (Value (JDict ?d)) =
     \<lparr>err_code = 5, err_message = ''bad'', err_data = None\<rparr>"
    using format_error_cases [of plain_interp _ ?d 5 "''MCP error 5: bad''" None] v k r
    by simp
  have x: "format_error plain_interp (Raised (TimeoutError ''slow'')) =
     \<lparr>err_code = - 32603, err_message = ''slow'', err_data = None\<rparr>"
    using format_error_cases [of plain_interp _ _ _ _ _ _ "TimeoutError ''slow''"]
    by simp
  have s: "format_error plain_interp (Value (JStr ''oops'')) =
     \<lparr>err_code = - 32603, err_message = ''Unknown error'',
      err_data = Some (JDict [(''error'', JStr ''oops'')])\<rparr>"
    using format_error_cases [of plain_interp _ _ _ _ _ _ _ "JStr ''oops''"]
    by (simp add: py_str_def)
  have n: "format_error plain_interp (Value JNull) =
     \<lparr>err_code = - 32603, err_message = ''Unknown error'',
      err_data = Some (JDict [(''error'', JNull)])\<rparr>"
    using format_error_cases [of plain_interp _ _ _ _ _ _ _ JNull]
    by simp
  from d x s n show ?thesis by simp
qed

section \<open>Properties of the WorkerBridge\<close>

lemma connect_cached:
  "is_connected c \<Longrightarrow> truthy (server_info c) \<Longrightarrow> connect env c ws = (Inr (server_info c), c, ws)"
  by (simp add: connect_def)

lemma connect_success_state:
  assumes "connect env c ws = (Inr info, c', ws')"
  shows "is_connected c' \<and> server_info c' = info"
  using assms
  by (auto simp: connect_def connect_failed_def Let_def split_beta
      split: if_splits prod.splits sum.splits)

text \<open>A second \<^verbatim>\<open>connect\<close> after one that returned a truthy handshake result returns the
  same result and changes nothing: no worker is made and nothing is sent.\<close>

lemma connect_idempotent_nonempty:
  assumes "connect env c ws = (Inr info, c', ws')" and "truthy info"
  shows "connect env c' ws' = (Inr info, c', ws')"
  using connect_success_state [OF assms(1)] assms(2) by (simp add: connect_cached)

lemma merge_child_trace_empty:
  "merge_child_trace env b p ok (JList []) d tr = tr"
  by (simp add: merge_child_trace_def merge_spans_def)

lemma execute_not_connected:
  "\<not> is_connected c \<or> server c = None \<Longrightarrow>
   execute_mcp_call env req tr c ws =
     (Inl (CustomError \<lparr>err_code = CONNECTION_CLOSED, err_message = ''Not connected'',
              err_data = None\<rparr>), req, tr, c, ws)"
  by (auto simp: execute_mcp_call_def)

lemma execute_initialize_cached:
  "is_connected c \<Longrightarrow> server c \<noteq> None \<Longrightarrow>
   map_of req ''method'' = Some (JStr ''initialize'') \<Longrightarrow> truthy (server_info c) \<Longrightarrow>
   execute_mcp_call env req tr c ws = (Inr (convert_to_dict (server_info c)), req, tr, c, ws)"
  by (auto simp: execute_mcp_call_def)

text \<open>The one state in which \<^verbatim>\<open>execute_mcp_call\<close> raises InvalidRequest: connected, with a
  falsy handshake result.\<close>

lemma execute_initialize_empty_info:
  "is_connected c \<Longrightarrow> server c \<noteq> None \<Longrightarrow>
   map_of req ''method'' = Some (JStr ''initialize'') \<Longrightarrow> \<not> truthy (server_info c) \<Longrightarrow>
   execute_mcp_call env req tr c ws =
     (Inl (CustomError \<lparr>err_code = INVALID_REQUEST, err_message = ''Please connect first'',
              err_data = None\<rparr>), req, tr, c, ws)"
  by (auto simp: execute_mcp_call_def)

lemma connect_handshake:
  "connect (env_with handshake_worker) (new_mcp_caller pkg_config) [] =
    (Inr (JDict [(''protocolVersion'', JStr ''2025-03-26'')]),
     \<lparr>config = pkg_config, request_message_id = 2, is_connected = True,
      server_info = JDict [(''protocolVersion'', JStr ''2025-03-26'')], server = Some 0\<rparr>,
     [\<lparr>w_module_path = ''pkg'', w_function_name = ''main'', w_is_running = True,
       w_stopped = False,
       w_sent = [initialize_request (new_mcp_caller pkg_config),
                 initialized_request (new_mcp_caller pkg_config)]\<rparr>])"
  by (simp add: connect_def launch_def send_request_def sent_to_def env_with_def
      handshake_worker_def handshake_reply_def initialize_result_def new_mcp_caller_def
      pkg_config_def initialize_request_def initialized_request_def Let_def)

text \<open>
  C3, as stated, fails. On a bridge that was never connected, \<^verbatim>\<open>execute_mcp_call\<close> of an
  \<^verbatim>\<open>initialize\<close> request raises ConnectionClosed (-32001, "Not connected"), not
  InvalidRequest (-32600): the check of the connection comes first.
\<close>

theorem execute_initialize_before_connect:
  "fst (execute_mcp_call (env_with handshake_worker)
          [(''jsonrpc'', JStr ''2.0''), (''id'', JInt 7), (''method'', JStr ''initialize'')]
          (new_tracer counting_penv 0 ''t'' None None) (new_mcp_caller pkg_config) [])
     = Inl (CustomError \<lparr>err_code = - 32001, err_message = ''Not connected'', err_data = None\<rparr>)
   \<and> INVALID_REQUEST \<noteq> - 32001"
  by (simp add: execute_mcp_call_def new_mcp_caller_def CONNECTION_CLOSED_def
      INVALID_REQUEST_def)

text \<open>
  C3, amended. On a bridge that is not connected (or has no worker), \<^verbatim>\<open>execute_mcp_call\<close>
  raises ConnectionClosed (-32001) for every request, \<^verbatim>\<open>initialize\<close> too, and changes
  nothing. On a connected bridge whose cached handshake result is not empty, an
  \<^verbatim>\<open>initialize\<close> request returns that result (null members dropped) and changes nothing:
  the request, the tracer, the bridge and the workers, with all that was sent to them,
  are as before.
\<close>

theorem execute_initialize_amended:
  "(\<not> is_connected c \<or> server c = None
      \<longrightarrow> execute_mcp_call env req tr c ws =
            (Inl (CustomError \<lparr>err_code = CONNECTION_CLOSED, err_message = ''Not connected'',
                     err_data = None\<rparr>), req, tr, c, ws))
   \<and> (is_connected c \<and> server c \<noteq> None \<and> map_of req ''method'' = Some (JStr ''initialize'')
        \<and> truthy (server_info c)
      \<longrightarrow> execute_mcp_call env req tr c ws =
            (Inr (convert_to_dict (server_info c)), req, tr, c, ws))
   \<and> CONNECTION_CLOSED = - 32001"
  using execute_not_connected [of c env req tr ws] execute_initialize_cached [of c req env tr ws]
  by (simp add: CONNECTION_CLOSED_def)

theorem execute_initialize_amended_witness:
  "execute_mcp_call (env_with handshake_worker)
       [(''jsonrpc'', JStr ''2.0''), (''id'', JInt 7), (''method'', JStr ''initialize'')]
       (new_tracer counting_penv 0 ''t'' None None) (new_mcp_caller pkg_config) []
     = (Inl (CustomError \<lparr>err_code = - 32001, err_message = ''Not connected'',
               err_data = None\<rparr>),
        [(''jsonrpc'', JStr ''2.0''), (''id'', JInt 7), (''method'', JStr ''initialize'')],
        new_tracer counting_penv 0 ''t'' None None, new_mcp_caller pkg_config, [])
   \<and> (let (r, c, ws) = connect (env_with handshake_worker) (new_mcp_caller pkg_config) []
      in is_connected c \<and> server c = Some 0
         \<and> execute_mcp_call (env_with handshake_worker)
              [(''jsonrpc'', JStr ''2.0''), (''id'', JInt 7), (''method'', JStr ''initialize'')]
              (new_tracer counting_penv 0 ''t'' None None) c ws
            = (Inr (JDict [(''protocolVersion'', JStr ''2025-03-26'')]),
               [(''jsonrpc'', JStr ''2.0''), (''id'', JInt 7), (''method'', JStr ''initialize'')],
               new_tracer counting_penv 0 ''t'' None None, c, ws))"
proof -
  let ?E = "env_with handshake_worker"
  let ?req = "[(''jsonrpc'', JStr ''2.0''), (''id'', JInt 7), (''method'', JStr ''initialize'')]"
  let ?tr = "new_tracer counting_penv 0 ''t'' None None"
  let ?c1 = "\<lparr>config = pkg_config, request_message_id = 2, is_connected = True,
      server_info = JDict [(''protocolVersion'', JStr ''2025-03-26'')], server = Some 0\<rparr>"
  have a: "execute_mcp_call ?E ?req ?tr (new_mcp_caller pkg_config) []
     = (Inl (CustomError \<lparr>err_code = - 32001, err_message = ''Not connected'',
               err_data = None\<rparr>), ?req, ?tr, new_mcp_caller pkg_config, [])"
    using execute_initialize_amended [of "new_mcp_caller pkg_config" ?E ?req ?tr "[]"]
    by (simp add: new_mcp_caller_def)
  have b: "execute_mcp_call ?E ?req ?tr ?c1 ws
            = (Inr (JDict [(''protocolVersion'', JStr ''2025-03-26'')]), ?req, ?tr, ?c1, ws)" for ws
    using execute_initialize_amended [of ?c1 ?E ?req ?tr ws] by simp
  show ?thesis
    unfolding connect_handshake using a b by simp
qed

text \<open>
  C6: the code does not do what the claim says when the handshake result is empty. A
  worker answers \<^verbatim>\<open>initialize\<close> with \<^verbatim>\<open>"result": {}\<close>; \<^verbatim>\<open>connect\<close> returns \<^verbatim>\<open>{}\<close> and the
  bridge is connected to worker 0. The second \<^verbatim>\<open>connect\<close> makes a second worker, sends it
  \<^verbatim>\<open>initialize\<close> with the id 2, and leaves worker 0 running and not stopped, held by
  nobody.
\<close>

theorem connect_twice_relaunches_on_empty_result:
  "(let (r1, c1, ws1) = connect (env_with empty_result_worker) (new_mcp_caller pkg_config) [];
        (r2, c2, ws2) = connect (env_with empty_result_worker) c1 ws1
    in r1 = Inr (JDict []) \<and> is_connected c1 \<and> server c1 = Some 0 \<and> length ws1 = 1
       \<and> r2 = Inr (JDict []) \<and> server c2 = Some 1 \<and> length ws2 = 2
       \<and> w_is_running (ws2 ! 0) \<and> \<not> w_stopped (ws2 ! 0)
       \<and> map_of (case hd (w_sent (ws2 ! 1)) of JDict d \<Rightarrow> d | _ \<Rightarrow> []) ''method''
           = Some (JStr ''initialize'')
       \<and> map_of (case hd (w_sent (ws2 ! 1)) of JDict d \<Rightarrow> d | _ \<Rightarrow> []) ''id'' = Some (JInt 2))"
  by (simp add: connect_def launch_def send_request_def sent_to_def env_with_def
      empty_result_worker_def handshake_reply_def initialize_result_def new_mcp_caller_def
      pkg_config_def initialize_request_def initialized_request_def Let_def)

section \<open>Properties of the Dispatcher\<close>

lemma validate_request_ok:
  assumes "validate_request env rdata = Inr (request, cfg)"
  shows "rdata = JDict request \<and> response_server env rdata = Inr (Some cfg)"
  using assms
  by (auto simp: validate_request_def response_server_def
      split: if_splits json.splits option.splits sum.splits)

lemma to_response_code:
  "map_of (to_response e) ''code'' = Some (JInt (err_code e))"
  "map_of (to_response e) ''message'' = Some (JStr (err_message e))"
  "to_response e \<noteq> []"
  by (simp_all add: to_response_def)

lemma generate_error_response:
  assumes "response_server env rdata = Inr sc" and "err \<noteq> []"
  shows "fst (generate_jsonrpc_response env rdata tr res (Some err)) =
     Inr \<lparr>rsp_jsonrpc = response_jsonrpc rdata, rsp_id = response_id rdata,
          rsp_error = Some err, rsp_result = None, rsp_server = sc,
          rsp_trace = fst (get_trace (penv (renv env)) False tr)\<rparr>"
  using assms by (simp add: generate_jsonrpc_response_def split_beta)

lemma format_error_raised_custom:
  "(case ex of CustomError e \<Rightarrow> f e | _ \<Rightarrow> f (format_error I (Raised ex)))
     = f (format_error I (Raised ex))"
  by (cases ex) (simp_all add: format_error_def)

lemma rpc_handler_error:
  assumes body: "rpc_body env rdata (initial_call_state env n rdata) = (Inl ex, st)"
      and srv: "response_server env rdata = Inr sc"
  shows "response_code (outcome (rpc_handler env n rdata))
           = Some (JInt (err_code (format_error (interp (penv (renv env))) (Raised ex))))"
    and "response_message (outcome (rpc_handler env n rdata))
           = Some (JStr (err_message (format_error (interp (penv (renv env))) (Raised ex))))"
    and "workers_after (rpc_handler env n rdata)
           = (case cs_caller st of Some c \<Rightarrow> snd (close c (cs_workers st)) | None \<Rightarrow> cs_workers st)"
    and "resolver_calls (rpc_handler env n rdata) = cs_resolver_calls st"
proof -
  let ?I = "interp (penv (renv env))"
  have out: "outcome (rpc_handler env n rdata)
     = fst (generate_jsonrpc_response env rdata (cs_tracer st) JNull
              (Some (to_response (format_error ?I (Raised ex)))))"
    using body by (cases ex) (simp_all add: rpc_handler_def format_error_def)
  show "response_code (outcome (rpc_handler env n rdata))
           = Some (JInt (err_code (format_error ?I (Raised ex))))"
    unfolding out generate_error_response [OF srv to_response_code(3)]
    by (simp add: response_code_def to_response_code)
  show "response_message (outcome (rpc_handler env n rdata))
           = Some (JStr (err_message (format_error ?I (Raised ex))))"
    unfolding out generate_error_response [OF srv to_response_code(3)]
    by (simp add: response_message_def to_response_code)
  show "workers_after (rpc_handler env n rdata)
           = (case cs_caller st of Some c \<Rightarrow> snd (close c (cs_workers st)) | None \<Rightarrow> cs_workers st)"
    using body by (simp add: rpc_handler_def)
  show "resolver_calls (rpc_handler env n rdata) = cs_resolver_calls st"
    using body by (simp add: rpc_handler_def)
qed

lemma span_step_frame:
  "cs_caller (span_step env name d st) = cs_caller st"
  "cs_workers (span_step env name d st) = cs_workers st"
  "cs_resolver_calls (span_step env name d st) = cs_resolver_calls st"
  by (simp_all add: span_step_def)

lemma initial_call_state_frame:
  "cs_caller (initial_call_state env n rdata) = None"
  "cs_workers (initial_call_state env n rdata) = []"
  "cs_resolver_calls (initial_call_state env n rdata) = []"
  by (simp_all add: initial_call_state_def)

lemma rpc_handler_state:
  "resolver_calls (rpc_handler env n rdata)
     = cs_resolver_calls (snd (rpc_body env rdata (initial_call_state env n rdata)))"
  "workers_after (rpc_handler env n rdata)
     = (case cs_caller (snd (rpc_body env rdata (initial_call_state env n rdata))) of
          Some c \<Rightarrow> snd (close c (cs_workers (snd (rpc_body env rdata (initial_call_state env n rdata)))))
        | None \<Rightarrow> cs_workers (snd (rpc_body env rdata (initial_call_state env n rdata))))"
  by (simp_all add: rpc_handler_def split_beta)

lemma map_of_filter_fst:
  "map_of xs s = Some h \<Longrightarrow> P h \<Longrightarrow> s \<in> set (map fst (filter (\<lambda>kv. P (snd kv)) xs))"
  by (induction xs) (auto split: if_splits)

lemma lookup_not_supported:
  assumes "case m of JStr s \<Rightarrow> s \<notin> set supported_methods | JList xs \<Rightarrow> False
             | JDict d \<Rightarrow> False | _ \<Rightarrow> True"
  shows "lookup_handler m = Inr None \<or> lookup_handler m = Inr (Some Unsupported)"
proof (cases m)
  case (JStr s)
  with assms have ns: "s \<notin> set supported_methods" by simp
  show ?thesis
  proof (cases "map_of handlers_map s")
    case None
    with JStr show ?thesis by (simp add: lookup_handler_def)
  next
    case (Some h)
    have "is_unsupported h"
      using map_of_filter_fst [OF Some, of "\<lambda>h. \<not> is_unsupported h"] ns
      by (auto simp: supported_methods_def)
    then have "h = Unsupported" by (cases h) simp_all
    with JStr Some show ?thesis by (simp add: lookup_handler_def)
  qed
qed (use assms in \<open>simp_all add: lookup_handler_def\<close>)

lemma rpc_body_method_not_found:
  assumes v: "validate_request env rdata = Inr (request, cfg)"
      and m: "case request_method request of JStr s \<Rightarrow> s \<notin> set supported_methods
                | JList xs \<Rightarrow> False | JDict d \<Rightarrow> False | _ \<Rightarrow> True"
  shows "rpc_body env rdata st0
           = (Inl (CustomError method_not_found), span_step env ''inputValidation'' None st0)"
  using lookup_not_supported [OF m] v
  by (auto simp: rpc_body_def Let_def)

lemma supported_methods_eq:
  "supported_methods =
     [''ping'', ''logging/setLevel'', ''notifications/initialized'', ''initialize'',
      ''prompts/get'', ''prompts/list'', ''resources/list'', ''resources/templates/list'',
      ''resources/read'', ''tools/call'', ''tools/list'', ''completion/complete'']"
  by (simp add: supported_methods_def handlers_map_def)

lemma supported_methods_message:
  "join_comma supported_methods =
     ''ping, logging/setLevel, notifications/initialized, initialize, prompts/get, prompts/list, resources/list, resources/templates/list, resources/read, tools/call, tools/list, completion/complete''"
  by (simp add: supported_methods_eq)

lemma supported_methods_distinct: "distinct supported_methods"
  by (simp add: supported_methods_eq)

lemma method_not_found_response:
  assumes v: "validate_request env rdata = Inr (request, cfg)"
      and m: "case request_method request of JStr s \<Rightarrow> s \<notin> set supported_methods
                | JList xs \<Rightarrow> False | JDict d \<Rightarrow> False | _ \<Rightarrow> True"
  shows "response_code (outcome (rpc_handler env n rdata)) = Some (JInt (- 32601))
       \<and> response_message (outcome (rpc_handler env n rdata))
           = Some (JStr (''Rpc supporting only '' @ join_comma supported_methods @ '' methods''))
       \<and> workers_after (rpc_handler env n rdata) = []
       \<and> resolver_calls (rpc_handler env n rdata) = []"
proof -
  note b = rpc_body_method_not_found [OF v m, of "initial_call_state env n rdata"]
  note s = validate_request_ok [OF v, THEN conjunct2]
  show ?thesis
    using rpc_handler_error [OF b s]
    by (simp add: format_error_def method_not_found_def METHOD_NOT_FOUND_def
        span_step_frame initial_call_state_frame)
qed

lemma rpc_body_forward:
  assumes "validate_request env rdata = Inr (request, cfg)"
      and "lookup_handler (request_method request) = Inr (Some ServerLevel)"
  shows "rpc_body env rdata st0
          = forward env request cfg (request_method request)
              (span_step env ''inputValidation'' None st0)"
  using assms by (simp add: rpc_body_def Let_def)

lemma forward_rejected:
  assumes "map_of request ''id'' \<noteq> None" and "\<not> startswith (sc_command cfg) ''uv''"
  shows "forward env request cfg method st
          = (Inl (CustomError \<lparr>err_code = INVALID_REQUEST,
                    err_message = ''Only uv or uvx command is supported for now'',
                    err_data = None\<rparr>),
             span_step env ''extractingServerConfig'' None st)"
  using assms by (simp add: forward_def Let_def)

lemma forward_resolver_called:
  assumes "map_of request ''id'' \<noteq> None" and "startswith (sc_command cfg) ''uv''"
  shows "cs_resolver_calls (snd (forward env request cfg method st))
          = cs_resolver_calls st @ [sc_args cfg]"
  using assms
  by (simp add: forward_def Let_def split_beta span_step_frame split: sum.splits)

lemma command_check_rejects:
  assumes v: "validate_request env rdata = Inr (request, cfg)"
      and h: "lookup_handler (request_method request) = Inr (Some ServerLevel)"
      and i: "map_of request ''id'' \<noteq> None"
      and c: "\<not> startswith (sc_command cfg) ''uv''"
  shows "response_code (outcome (rpc_handler env n rdata)) = Some (JInt (- 32600))
       \<and> response_message (outcome (rpc_handler env n rdata))
           = Some (JStr ''Only uv or uvx command is supported for now'')
       \<and> workers_after (rpc_handler env n rdata) = []
       \<and> resolver_calls (rpc_handler env n rdata) = []"
proof -
  have b: "rpc_body env rdata (initial_call_state env n rdata)
     = (Inl (CustomError \<lparr>err_code = INVALID_REQUEST,
                    err_message = ''Only uv or uvx command is supported for now'',
                    err_data = None\<rparr>),
        span_step env ''extractingServerConfig'' None
          (span_step env ''inputValidation'' None (initial_call_state env n rdata)))"
    by (simp add: rpc_body_forward [OF v h] forward_rejected [OF i c])
  note s = validate_request_ok [OF v, THEN conjunct2]
  show ?thesis
    using rpc_handler_error [OF b s]
    by (simp add: format_error_def INVALID_REQUEST_def span_step_frame initial_call_state_frame)
qed

lemma command_check_passes:
  assumes v: "validate_request env rdata = Inr (request, cfg)"
      and h: "lookup_handler (request_method request) = Inr (Some ServerLevel)"
      and i: "map_of request ''id'' \<noteq> None"
      and c: "startswith (sc_command cfg) ''uv''"
  shows "resolver_calls (rpc_handler env n rdata) = [sc_args cfg]"
  by (simp add: rpc_handler_state rpc_body_forward [OF v h] forward_resolver_called [OF i c]
      span_step_frame initial_call_state_frame)

lemma validate_server_request:
  "validate_request (dispatch_with wk) (server_request m c) =
     Inr ([(''jsonrpc'', JStr ''2.0''), (''id'', JInt 1), (''method'', JStr m),
           (''params'', JDict [(''_meta'', JDict [(''server'',
               JDict [(''command'', JStr c), (''args'', JList [JStr ''pkg''])])])])],
          \<lparr>sc_protocol_version = ''2025-03-26'', sc_jsonrpc = ''2.0'', sc_type = ''stdio'',
           sc_command = c, sc_args = Some [''pkg''], sc_cwd = None, sc_stderr = None,
           sc_env = None, sc_version = None\<rparr>)"
  by (simp add: validate_request_def server_request_def dispatch_with_def
      example_validate_meta_def example_strings_def)

lemma resolve_installed:
  "resolve_args installed_env (Some [''pkg'']) =
     Inr \<lparr>package_name = ''pkg'', module_path = ''pkg'', function_name = ''main'',
          entry_point = None, source_path = None, with_deps = [], inspection_data = [],
          up_entry_points = [], install_success = True\<rparr>"
  by (simp add: resolve_args_def parse_mcp_server_params_def parse_args_def
      initial_parse_state_def startswith_def truthy_val_def installed_env_def
      install_main_def resolve_entry_point_def dash_to_underscore_def)

lemma connect_fresh_timeout:
  assumes "worker env 0 [initialize_request (new_mcp_caller cfg)] ''30.0'' = NoData"
  shows "connect env (new_mcp_caller cfg) [] =
    (Inl (CustomError \<lparr>err_code = INTERNAL_ERROR,
            err_message = ''Request timed out after 30.0 seconds'', err_data = None\<rparr>),
     (new_mcp_caller cfg)\<lparr>request_message_id := 2, server := None\<rparr>,
     [\<lparr>w_module_path = cfg_module_path cfg, w_function_name = cfg_function_name cfg,
       w_is_running = False, w_stopped = True,
       w_sent = [initialize_request (new_mcp_caller cfg)]\<rparr>])"
proof -
  have eq: "initialize_request ((new_mcp_caller cfg)\<lparr>server := Some 0\<rparr>)
      = initialize_request (new_mcp_caller cfg)"
    by (simp add: initialize_request_def)
  show ?thesis
    using assms
    by (simp add: connect_def launch_def send_request_def sent_to_def eq connect_failed_def
        stop_def format_error_def Let_def)
       (simp add: new_mcp_caller_def)
qed

lemma send_request_frame:
  assumes "send_request env w request timeout ws = (r, ws')"
  shows "length ws' = length ws"
    and "w' < length ws \<Longrightarrow> w_is_running (ws' ! w') = w_is_running (ws ! w')"
    and "w' < length ws \<Longrightarrow> w_stopped (ws' ! w') = w_stopped (ws ! w')"
  using assms
  by (auto simp: send_request_def Let_def nth_list_update split: if_splits reply.splits)

lemma connect_fresh_success:
  assumes "connect env (new_mcp_caller cfg) [] = (Inr info, c1, ws1)"
  shows "is_connected c1 \<and> server c1 = Some 0 \<and> length ws1 = 1
       \<and> w_is_running (ws1 ! 0) \<and> \<not> w_stopped (ws1 ! 0)"
proof -
  let ?c = "new_mcp_caller cfg"
  let ?ws1 = "[\<lparr>w_module_path = cfg_module_path cfg, w_function_name = cfg_function_name cfg,
                w_is_running = True, w_stopped = False, w_sent = []\<rparr>]"
  let ?c1 = "?c\<lparr>server := Some 0\<rparr>"
  let ?c2 = "?c1\<lparr>request_message_id := request_message_id ?c1 + 1\<rparr>"
  obtain r ws2 where s1: "send_request env 0 (initialize_request ?c1) ''30.0'' ?ws1 = (r, ws2)"
    by (cases "send_request env 0 (initialize_request ?c1) ''30.0'' ?ws1")
  have nc: "\<not> is_connected ?c" "cfg_module_path (config ?c) = cfg_module_path cfg"
    "cfg_function_name (config ?c) = cfg_function_name cfg"
    by (simp_all add: new_mcp_caller_def)
  from assms s1 nc obtain resp where r: "r = Inr resp"
    and ir: "initialize_result (interp (penv env)) resp = Inr info"
    and c1: "c1 = ?c2\<lparr>server_info := info, is_connected := True\<rparr>"
    and ws1: "ws1 = snd (send_request env 0
                (initialized_request (?c2\<lparr>server_info := info\<rparr>)) ''1e-05'' ws2)"
    by (auto simp: connect_def launch_def Let_def connect_failed_def
        split: sum.splits)
  have f2: "length ws2 = 1" "w_is_running (ws2 ! 0)" "\<not> w_stopped (ws2 ! 0)"
    using send_request_frame(1) [OF s1] send_request_frame(2,3) [OF s1, of 0] by simp_all
  obtain r3 ws3 where s3: "send_request env 0
      (initialized_request (?c2\<lparr>server_info := info\<rparr>)) ''1e-05'' ws2 = (r3, ws3)"
    by (cases "send_request env 0 (initialized_request (?c2\<lparr>server_info := info\<rparr>)) ''1e-05'' ws2")
  have f3: "length ws3 = 1" "w_is_running (ws3 ! 0)" "\<not> w_stopped (ws3 ! 0)"
    using send_request_frame(1) [OF s3] send_request_frame(2,3) [OF s3, of 0] f2 by simp_all
  from c1 ws1 s3 f3 show ?thesis by simp
qed

lemma execute_timeout:
  assumes "is_connected c" and "server c = Some 0" and "length ws = 1"
      and "w_is_running (ws ! 0)"
      and "map_of req ''id'' \<noteq> None"
      and "map_of req ''method'' \<noteq> Some (JStr ''initialize'')"
      and "worker env 0 (sent_to ws 0 @ [JDict req]) ''30.0'' = NoData"
  shows "execute_mcp_call env req tr c ws =
     (Inl (TimeoutError ''Request timed out after 30.0 seconds''), req, tr, c,
      ws[0 := (ws ! 0)\<lparr>w_sent := sent_to ws 0 @ [JDict req]\<rparr>])"
proof -
  from assms(5) obtain y where y: "map_of req ''id'' = Some y" by auto
  show ?thesis
    using assms(1-4,6,7)
    by (simp add: execute_mcp_call_def y send_request_def Let_def merge_child_trace_def
        merge_spans_def)
qed

lemma closed_after_stop:
  assumes "length ws = 1"
  shows "length (stop 0 ws) = 1 \<and> list_all w_stopped (stop 0 ws)
       \<and> \<not> w_is_running (hd (stop 0 ws))"
proof -
  from assms obtain w where "ws = [w]" by (cases ws) auto
  then show ?thesis by (simp add: stop_def)
qed

lemma forward_handshake_timeout:
  assumes i: "map_of request ''id'' \<noteq> None"
      and c: "startswith (sc_command cfg) ''uv''"
      and u: "resolve_args (uvenv (renv env)) (sc_args cfg) = Inr uvp"
      and w: "cs_workers st = []"
      and t: "worker (renv env) 0
                [initialize_request (new_mcp_caller (caller_configuration cfg uvp))] ''30.0''
              = NoData"
  shows "\<exists>st'. forward env request cfg method st =
           (Inl (CustomError \<lparr>err_code = INTERNAL_ERROR,
                   err_message = ''Request timed out after 30.0 seconds'', err_data = None\<rparr>),
            st')
         \<and> (\<exists>c' ws'. cs_caller st' = Some c' \<and> cs_workers st' = ws' \<and> server c' = None
               \<and> length ws' = 1 \<and> list_all w_stopped ws' \<and> \<not> w_is_running (hd ws'))"
  using i c u w connect_fresh_timeout [OF t]
  by (simp add: forward_def Let_def span_step_frame)

lemma forward_call_timeout:
  assumes i: "map_of request ''id'' \<noteq> None"
      and c: "startswith (sc_command cfg) ''uv''"
      and u: "resolve_args (uvenv (renv env)) (sc_args cfg) = Inr uvp"
      and w: "cs_workers st = []"
      and k: "connect (renv env) (new_mcp_caller (caller_configuration cfg uvp)) []
                = (Inr info, c1, ws1)"
      and m: "map_of request ''method'' \<noteq> Some (JStr ''initialize'')"
      and t: "worker (renv env) 0 (sent_to ws1 0 @ [JDict request]) ''30.0'' = NoData"
  shows "\<exists>st'. forward env request cfg method st =
           (Inl (TimeoutError ''Request timed out after 30.0 seconds''), st')
         \<and> (\<exists>c' ws'. cs_caller st' = Some c' \<and> cs_workers st' = ws' \<and> server c' = Some 0
               \<and> length ws' = 1)"
proof -
  note s = connect_fresh_success [OF k]
  have e: "execute_mcp_call (renv env) request tr c1 ws1 =
     (Inl (TimeoutError ''Request timed out after 30.0 seconds''), request, tr, c1,
      ws1[0 := (ws1 ! 0)\<lparr>w_sent := sent_to ws1 0 @ [JDict request]\<rparr>])" for tr
    using execute_timeout [of c1 ws1 request "renv env" tr] s i m t by simp
  show ?thesis
    using i c u w k s
    by (simp add: forward_def Let_def span_step_frame e)
qed

lemma validate_request_custom_error:
  assumes "validate_request env rdata = Inl (CustomError e)"
  shows "err_code e = INVALID_REQUEST \<and> (\<exists>sc. response_server env rdata = Inr sc)"
  using assms
  by (auto simp: validate_request_def response_server_def invalid_meta_def
      split: if_splits json.splits option.splits sum.splits)

text \<open>What does hold of a request without a usable \<open>_meta\<close>: whenever the validation
  raises its \<^verbatim>\<open>CustomError\<close>, the response is InvalidRequest and nothing was launched.\<close>

lemma invalid_meta_response:
  assumes v: "validate_request env rdata = Inl (CustomError e)"
  shows "response_code (outcome (rpc_handler env n rdata)) = Some (JInt (- 32600))
       \<and> workers_after (rpc_handler env n rdata) = []
       \<and> resolver_calls (rpc_handler env n rdata) = []"
proof -
  from validate_request_custom_error [OF v] obtain sc where
    c: "err_code e = INVALID_REQUEST" and s: "response_server env rdata = Inr sc" by blast
  have b: "rpc_body env rdata (initial_call_state env n rdata)
     = (Inl (CustomError e), span_step env ''inputValidation'' None (initial_call_state env n rdata))"
    using v by (simp add: rpc_body_def Let_def)
  show ?thesis
    using rpc_handler_error [OF b s] c
    by (simp add: format_error_def INVALID_REQUEST_def span_step_frame initial_call_state_frame)
qed

lemma handshake_timeout_response:
  assumes v: "validate_request env rdata = Inr (request, cfg)"
      and h: "lookup_handler (request_method request) = Inr (Some ServerLevel)"
      and i: "map_of request ''id'' \<noteq> None"
      and c: "startswith (sc_command cfg) ''uv''"
      and u: "resolve_args (uvenv (renv env)) (sc_args cfg) = Inr uvp"
      and t: "worker (renv env) 0
                [initialize_request (new_mcp_caller (caller_configuration cfg uvp))] ''30.0''
              = NoData"
  shows "response_code (outcome (rpc_handler env n rdata)) = Some (JInt (- 32603))
       \<and> response_message (outcome (rpc_handler env n rdata))
           = Some (JStr ''Request timed out after 30.0 seconds'')
       \<and> length (workers_after (rpc_handler env n rdata)) = 1
       \<and> list_all w_stopped (workers_after (rpc_handler env n rdata))
       \<and> \<not> w_is_running (hd (workers_after (rpc_handler env n rdata)))"
proof -
  let ?st = "span_step env ''inputValidation'' None (initial_call_state env n rdata)"
  have w: "cs_workers ?st = []" by (simp add: span_step_frame initial_call_state_frame)
  from forward_handshake_timeout [OF i c u w t, of "request_method request"]
  obtain st' c' where
    b: "rpc_body env rdata (initial_call_state env n rdata) =
          (Inl (CustomError \<lparr>err_code = INTERNAL_ERROR,
                   err_message = ''Request timed out after 30.0 seconds'', err_data = None\<rparr>),
           st')"
    and f: "cs_caller st' = Some c'" "server c' = None" "length (cs_workers st') = 1"
      "list_all w_stopped (cs_workers st')" "\<not> w_is_running (hd (cs_workers st'))"
    unfolding rpc_body_forward [OF v h] by blast
  note s = validate_request_ok [OF v, THEN conjunct2]
  show ?thesis
    using rpc_handler_error [OF b s] f
    by (simp add: format_error_def INTERNAL_ERROR_def close_def)
qed

lemma call_timeout_response:
  assumes v: "validate_request env rdata = Inr (request, cfg)"
      and h: "lookup_handler (request_method request) = Inr (Some ServerLevel)"
      and i: "map_of request ''id'' \<noteq> None"
      and c: "startswith (sc_command cfg) ''uv''"
      and u: "resolve_args (uvenv (renv env)) (sc_args cfg) = Inr uvp"
      and k: "connect (renv env) (new_mcp_caller (caller_configuration cfg uvp)) []
                = (Inr info, c1, ws1)"
      and m: "map_of request ''method'' \<noteq> Some (JStr ''initialize'')"
      and t: "worker (renv env) 0 (sent_to ws1 0 @ [JDict request]) ''30.0'' = NoData"
  shows "response_code (outcome (rpc_handler env n rdata)) = Some (JInt (- 32603))
       \<and> response_message (outcome (rpc_handler env n rdata))
           = Some (JStr ''Request timed out after 30.0 seconds'')
       \<and> length (workers_after (rpc_handler env n rdata)) = 1
       \<and> list_all w_stopped (workers_after (rpc_handler env n rdata))
       \<and> \<not> w_is_running (hd (workers_after (rpc_handler env n rdata)))"
proof -
  let ?st = "span_step env ''inputValidation'' None (initial_call_state env n rdata)"
  have w: "cs_workers ?st = []" by (simp add: span_step_frame initial_call_state_frame)
  from forward_call_timeout [OF i c u w k m t, of "request_method request"]
  obtain st' c' where
    b: "rpc_body env rdata (initial_call_state env n rdata) =
          (Inl (TimeoutError ''Request timed out after 30.0 seconds''), st')"
    and f: "cs_caller st' = Some c'" "server c' = Some 0" "length (cs_workers st') = 1"
    unfolding rpc_body_forward [OF v h] by blast
  note s = validate_request_ok [OF v, THEN conjunct2]
  show ?thesis
    using rpc_handler_error [OF b s] f closed_after_stop [OF f(3)]
    by (simp add: format_error_def INTERNAL_ERROR_def close_def)
qed

lemma lookup_tools_list: "lookup_handler (JStr ''tools/list'') = Inr (Some ServerLevel)"
  by (simp add: lookup_handler_def handlers_map_def)

lemma uvenv_dispatch_with: "uvenv (renv (dispatch_with wk)) = installed_env"
  "worker (renv (dispatch_with wk)) = wk"
  by (simp_all add: dispatch_with_def env_with_def)

lemma silent_run:
  assumes "startswith c ''uv''"
  shows "response_code (outcome (rpc_handler (dispatch_with silent_worker) 0
           (server_request ''tools/list'' c))) = Some (JInt (- 32603))
       \<and> resolver_calls (rpc_handler (dispatch_with silent_worker) 0
           (server_request ''tools/list'' c)) = [Some [''pkg'']]
       \<and> list_all w_stopped (workers_after (rpc_handler (dispatch_with silent_worker) 0
           (server_request ''tools/list'' c)))"
proof -
  note v = validate_server_request [of silent_worker "''tools/list''" c]
  have h: "lookup_handler (request_method
      [(''jsonrpc'', JStr ''2.0''), (''id'', JInt 1), (''method'', JStr ''tools/list''),
           (''params'', JDict [(''_meta'', JDict [(''server'',
               JDict [(''command'', JStr c), (''args'', JList [JStr ''pkg''])])])])])
      = Inr (Some ServerLevel)"
    by (simp add: request_method_def lookup_tools_list)
  show ?thesis
    using handshake_timeout_response [OF v h, of _ 0] command_check_passes [OF v h, of 0] assms
    by (simp add: uvenv_dispatch_with resolve_installed silent_worker_def)
qed

lemma silent_run_length:
  assumes "startswith c ''uv''"
  shows "length (workers_after (rpc_handler (dispatch_with silent_worker) 0
           (server_request ''tools/list'' c))) = 1"
proof -
  note v = validate_server_request [of silent_worker "''tools/list''" c]
  have h: "lookup_handler (request_method
      [(''jsonrpc'', JStr ''2.0''), (''id'', JInt 1), (''method'', JStr ''tools/list''),
           (''params'', JDict [(''_meta'', JDict [(''server'',
               JDict [(''command'', JStr c), (''args'', JList [JStr ''pkg''])])])])])
      = Inr (Some ServerLevel)"
    by (simp add: request_method_def lookup_tools_list)
  show ?thesis
    using handshake_timeout_response [OF v h, of _ 0] assms
    by (simp add: uvenv_dispatch_with resolve_installed silent_worker_def)
qed

text \<open>
  C1, as stated, fails. A \<^verbatim>\<open>tools/list\<close> request for a \<^verbatim>\<open>uvx\<close> server whose worker never
  replies is answered with the error code -32603 (InternalError), not -32002
  (RequestTimeout): \<^verbatim>\<open>send_request\<close> raises Python's \<^verbatim>\<open>TimeoutError\<close>, which
  \<^verbatim>\<open>format_error\<close> turns into an InternalError.
\<close>

theorem silent_worker_timeout_is_internal_error:
  "response_code (outcome (rpc_handler (dispatch_with silent_worker) 0
           (server_request ''tools/list'' ''uvx''))) = Some (JInt (- 32603))
   \<and> response_code (outcome (rpc_handler (dispatch_with silent_worker) 0
           (server_request ''tools/list'' ''uvx''))) \<noteq> Some (JInt REQUEST_TIMEOUT)
   \<and> REQUEST_TIMEOUT = - 32002"
  using silent_run [of "''uvx''"] by (simp add: startswith_def REQUEST_TIMEOUT_def)

text \<open>
  C1, amended. For a forwarded call that reaches the worker (valid \<open>_meta\<close>, a forwarded
  method, an id, a command starting with \<^verbatim>\<open>uv\<close>, arguments that resolve) and whose worker
  does not reply within the 30-second bound, be it to the \<^verbatim>\<open>initialize\<close> handshake or,
  after a handshake that succeeded, to the forwarded request itself, the dispatcher
  returns an error response with code -32603 (InternalError) and the message
  \<^verbatim>\<open>Request timed out after 30.0 seconds\<close>, and the one worker that was launched is
  stopped when the handler returns.
\<close>

theorem timeout_yields_internal_error:
  "(validate_request env rdata = Inr (request, cfg)
      \<and> lookup_handler (request_method request) = Inr (Some ServerLevel)
      \<and> map_of request ''id'' \<noteq> None
      \<and> startswith (sc_command cfg) ''uv''
      \<and> resolve_args (uvenv (renv env)) (sc_args cfg) = Inr uvp
      \<and> (worker (renv env) 0
            [initialize_request (new_mcp_caller (caller_configuration cfg uvp))] ''30.0''
           = NoData
         \<or> connect (renv env) (new_mcp_caller (caller_configuration cfg uvp)) []
             = (Inr info, c1, ws1)
           \<and> map_of request ''method'' \<noteq> Some (JStr ''initialize'')
           \<and> worker (renv env) 0 (sent_to ws1 0 @ [JDict request]) ''30.0'' = NoData)
    \<longrightarrow> response_code (outcome (rpc_handler env n rdata)) = Some (JInt (- 32603))
       \<and> response_message (outcome (rpc_handler env n rdata))
           = Some (JStr ''Request timed out after 30.0 seconds'')
       \<and> length (workers_after (rpc_handler env n rdata)) = 1
       \<and> list_all w_stopped (workers_after (rpc_handler env n rdata))
       \<and> \<not> w_is_running (hd (workers_after (rpc_handler env n rdata))))
   \<and> INTERNAL_ERROR = - 32603 \<and> REQUEST_TIMEOUT = - 32002"
  using handshake_timeout_response [of env rdata request cfg uvp n]
    call_timeout_response [of env rdata request cfg uvp info c1 ws1 n]
  by (auto simp: INTERNAL_ERROR_def REQUEST_TIMEOUT_def)

lemma caller_configuration_pkg:
  "caller_configuration
     \<lparr>sc_protocol_version = ''2025-03-26'', sc_jsonrpc = ''2.0'', sc_type = ''stdio'',
      sc_command = c, sc_args = Some [''pkg''], sc_cwd = None, sc_stderr = None,
      sc_env = None, sc_version = None\<rparr>
     \<lparr>package_name = ''pkg'', module_path = ''pkg'', function_name = ''main'',
      entry_point = None, source_path = None, with_deps = [], inspection_data = [],
      up_entry_points = [], install_success = True\<rparr> = pkg_config"
  by (simp add: caller_configuration_def pkg_config_def)

theorem timeout_yields_internal_error_witness:
  "response_code (outcome (rpc_handler (dispatch_with silent_worker) 0
       (server_request ''tools/list'' ''uvx''))) = Some (JInt (- 32603))
   \<and> response_message (outcome (rpc_handler (dispatch_with silent_worker) 0
       (server_request ''tools/list'' ''uvx'')))
       = Some (JStr ''Request timed out after 30.0 seconds'')
   \<and> list_all w_stopped (workers_after (rpc_handler (dispatch_with silent_worker) 0
       (server_request ''tools/list'' ''uvx'')))
   \<and> response_code (outcome (rpc_handler (dispatch_with handshake_worker) 0
       (server_request ''tools/list'' ''uvx''))) = Some (JInt (- 32603))
   \<and> list_all w_stopped (workers_after (rpc_handler (dispatch_with handshake_worker) 0
       (server_request ''tools/list'' ''uvx'')))"
proof -
  let ?req = "[(''jsonrpc'', JStr ''2.0''), (''id'', JInt 1), (''method'', JStr ''tools/list''),
           (''params'', JDict [(''_meta'', JDict [(''server'',
               JDict [(''command'', JStr ''uvx''), (''args'', JList [JStr ''pkg''])])])])]"
  let ?cfg = "\<lparr>sc_protocol_version = ''2025-03-26'', sc_jsonrpc = ''2.0'', sc_type = ''stdio'',
      sc_command = ''uvx'', sc_args = Some [''pkg''], sc_cwd = None, sc_stderr = None,
      sc_env = None, sc_version = None\<rparr>"
  let ?uvp = "\<lparr>package_name = ''pkg'', module_path = ''pkg'', function_name = ''main'',
      entry_point = None, source_path = None, with_deps = [], inspection_data = [],
      up_entry_points = [], install_success = True\<rparr>"
  let ?c1 = "\<lparr>config = pkg_config, request_message_id = 2, is_connected = True,
      server_info = JDict [(''protocolVersion'', JStr ''2025-03-26'')], server = Some 0\<rparr>"
  let ?ws1 = "[\<lparr>w_module_path = ''pkg'', w_function_name = ''main'', w_is_running = True,
       w_stopped = False,
       w_sent = [initialize_request (new_mcp_caller pkg_config),
                 initialized_request (new_mcp_caller pkg_config)]\<rparr>]"
  have h: "lookup_handler (request_method ?req) = Inr (Some ServerLevel)"
    by (simp add: request_method_def lookup_tools_list)
  have a: "response_code (outcome (rpc_handler (dispatch_with silent_worker) 0
       (server_request ''tools/list'' ''uvx''))) = Some (JInt (- 32603))
   \<and> response_message (outcome (rpc_handler (dispatch_with silent_worker) 0
       (server_request ''tools/list'' ''uvx'')))
       = Some (JStr ''Request timed out after 30.0 seconds'')
   \<and> list_all w_stopped (workers_after (rpc_handler (dispatch_with silent_worker) 0
       (server_request ''tools/list'' ''uvx'')))"
    using timeout_yields_internal_error [of "dispatch_with silent_worker"
        "server_request ''tools/list'' ''uvx''" ?req ?cfg ?uvp JNull
        "new_mcp_caller pkg_config" "[]" 0]
      validate_server_request [of silent_worker "''tools/list''" "''uvx''"] h
    by (simp add: uvenv_dispatch_with resolve_installed silent_worker_def startswith_def)
  have k: "connect (renv (dispatch_with handshake_worker)) (new_mcp_caller pkg_config) [] =
    (Inr (JDict [(''protocolVersion'', JStr ''2025-03-26'')]),
     \<lparr>config = pkg_config, request_message_id = 2, is_connected = True,
      server_info = JDict [(''protocolVersion'', JStr ''2025-03-26'')], server = Some 0\<rparr>,
     [\<lparr>w_module_path = ''pkg'', w_function_name = ''main'', w_is_running = True,
       w_stopped = False,
       w_sent = [initialize_request (new_mcp_caller pkg_config),
                 initialized_request (new_mcp_caller pkg_config)]\<rparr>])"
    using connect_handshake by (simp add: dispatch_with_def)
  have b: "response_code (outcome (rpc_handler (dispatch_with handshake_worker) 0
       (server_request ''tools/list'' ''uvx''))) = Some (JInt (- 32603))
   \<and> list_all w_stopped (workers_after (rpc_handler (dispatch_with handshake_worker) 0
       (server_request ''tools/list'' ''uvx'')))"
    using timeout_yields_internal_error [of "dispatch_with handshake_worker"
        "server_request ''tools/list'' ''uvx''" ?req ?cfg ?uvp
        "JDict [(''protocolVersion'', JStr ''2025-03-26'')]" ?c1 ?ws1 0]
      validate_server_request [of handshake_worker "''tools/list''" "''uvx''"] h
    by (simp add: uvenv_dispatch_with resolve_installed startswith_def
        caller_configuration_pkg k sent_to_def handshake_worker_def)
  from a b show ?thesis by simp
qed

text \<open>
  C2, as stated, fails. The command \<^verbatim>\<open>uvicorn\<close> is neither \<^verbatim>\<open>uv\<close> nor \<^verbatim>\<open>uvx\<close>, yet a
  \<^verbatim>\<open>tools/list\<close> request with it passes the check of the command: the ArgumentResolver is called and a
  worker is launched (here one that never replies, hence the InternalError).
\<close>

theorem uvicorn_passes_command_check:
  "resolver_calls (rpc_handler (dispatch_with silent_worker) 0
      (server_request ''tools/list'' ''uvicorn'')) = [Some [''pkg'']]
   \<and> length (workers_after (rpc_handler (dispatch_with silent_worker) 0
      (server_request ''tools/list'' ''uvicorn''))) = 1
   \<and> response_code (outcome (rpc_handler (dispatch_with silent_worker) 0
      (server_request ''tools/list'' ''uvicorn''))) = Some (JInt (- 32603))
   \<and> ''uvicorn'' \<noteq> ''uv'' \<and> ''uvicorn'' \<noteq> ''uvx''"
  using silent_run [of "''uvicorn''"] silent_run_length [of "''uvicorn''"]
  by (simp add: startswith_def)

text \<open>
  C2, amended. For every forwarded-method request with a valid \<open>_meta\<close> and an id whose
  server command does not start with \<^verbatim>\<open>uv\<close>, the dispatcher answers InvalidRequest
  (-32600, "Only uv or uvx command is supported for now") and neither calls the
  ArgumentResolver nor launches a worker. For every such request whose command starts
  with \<^verbatim>\<open>uv\<close>, as \<^verbatim>\<open>uv\<close> and \<^verbatim>\<open>uvx\<close> do, this rejection does not occur: the
  ArgumentResolver is called, once, with the descriptor's arguments.
\<close>

theorem command_check_amended:
  "(validate_request env rdata = Inr (request, cfg)
      \<and> lookup_handler (request_method request) = Inr (Some ServerLevel)
      \<and> map_of request ''id'' \<noteq> None
      \<and> \<not> startswith (sc_command cfg) ''uv''
    \<longrightarrow> response_code (outcome (rpc_handler env n rdata)) = Some (JInt (- 32600))
       \<and> response_message (outcome (rpc_handler env n rdata))
           = Some (JStr ''Only uv or uvx command is supported for now'')
       \<and> workers_after (rpc_handler env n rdata) = []
       \<and> resolver_calls (rpc_handler env n rdata) = [])
   \<and> (validate_request env rdata = Inr (request, cfg)
      \<and> lookup_handler (request_method request) = Inr (Some ServerLevel)
      \<and> map_of request ''id'' \<noteq> None
      \<and> startswith (sc_command cfg) ''uv''
    \<longrightarrow> resolver_calls (rpc_handler env n rdata) = [sc_args cfg])
   \<and> startswith ''uv'' ''uv'' \<and> startswith ''uvx'' ''uv''"
  using command_check_rejects [of env rdata request cfg n]
    command_check_passes [of env rdata request cfg n]
  by (auto simp: startswith_def)

theorem command_check_amended_witness:
  "response_code (outcome (rpc_handler (dispatch_with silent_worker) 0
      (server_request ''tools/list'' ''npx''))) = Some (JInt (- 32600))
   \<and> resolver_calls (rpc_handler (dispatch_with silent_worker) 0
      (server_request ''tools/list'' ''npx'')) = []
   \<and> workers_after (rpc_handler (dispatch_with silent_worker) 0
      (server_request ''tools/list'' ''npx'')) = []
   \<and> resolver_calls (rpc_handler (dispatch_with silent_worker) 0
      (server_request ''tools/list'' ''uvx'')) = [Some [''pkg'']]"
proof -
  have h: "lookup_handler (request_method
      [(''jsonrpc'', JStr ''2.0''), (''id'', JInt 1), (''method'', JStr ''tools/list''),
           (''params'', JDict [(''_meta'', JDict [(''server'',
               JDict [(''command'', JStr c), (''args'', JList [JStr ''pkg''])])])])])
      = Inr (Some ServerLevel)" for c
    by (simp add: request_method_def lookup_tools_list)
  have a: "response_code (outcome (rpc_handler (dispatch_with silent_worker) 0
      (server_request ''tools/list'' ''npx''))) = Some (JInt (- 32600))
   \<and> resolver_calls (rpc_handler (dispatch_with silent_worker) 0
      (server_request ''tools/list'' ''npx'')) = []
   \<and> workers_after (rpc_handler (dispatch_with silent_worker) 0
      (server_request ''tools/list'' ''npx'')) = []"
    using command_check_amended [of "dispatch_with silent_worker"
        "server_request ''tools/list'' ''npx''"
        "[(''jsonrpc'', JStr ''2.0''), (''id'', JInt 1), (''method'', JStr ''tools/list''),
           (''params'', JDict [(''_meta'', JDict [(''server'',
               JDict [(''command'', JStr ''npx''), (''args'', JList [JStr ''pkg''])])])])]"
        "\<lparr>sc_protocol_version = ''2025-03-26'', sc_jsonrpc = ''2.0'', sc_type = ''stdio'',
          sc_command = ''npx'', sc_args = Some [''pkg''], sc_cwd = None, sc_stderr = None,
          sc_env = None, sc_version = None\<rparr>" 0]
      validate_server_request [of silent_worker "''tools/list''" "''npx''"] h [of "''npx''"]
    by (simp add: startswith_def)
  have b: "resolver_calls (rpc_handler (dispatch_with silent_worker) 0
      (server_request ''tools/list'' ''uvx'')) = [Some [''pkg'']]"
    using command_check_amended [of "dispatch_with silent_worker"
        "server_request ''tools/list'' ''uvx''"
        "[(''jsonrpc'', JStr ''2.0''), (''id'', JInt 1), (''method'', JStr ''tools/list''),
           (''params'', JDict [(''_meta'', JDict [(''server'',
               JDict [(''command'', JStr ''uvx''), (''args'', JList [JStr ''pkg''])])])])]"
        "\<lparr>sc_protocol_version = ''2025-03-26'', sc_jsonrpc = ''2.0'', sc_type = ''stdio'',
          sc_command = ''uvx'', sc_args = Some [''pkg''], sc_cwd = None, sc_stderr = None,
          sc_env = None, sc_version = None\<rparr>" 0]
      validate_server_request [of silent_worker "''tools/list''" "''uvx''"] h [of "''uvx''"]
    by (simp add: startswith_def)
  from a b show ?thesis by simp
qed

text \<open>
  C4: the code does not do what the claim says when \<open>_meta\<close> or \<open>params\<close> is truthy and
  no object. For a \<^verbatim>\<open>ping\<close> whose \<open>params._meta\<close> is the string \<^verbatim>\<open>"x"\<close> the response has
  the code -32603 (InternalError), not -32600; no worker is launched. For a \<^verbatim>\<open>ping\<close>
  whose \<open>params\<close> is the array \<^verbatim>\<open>[1]\<close> the handler returns no response at all: the
  \<^verbatim>\<open>AttributeError\<close> is raised again while the error response is built, and leaves the
  handler.
\<close>

theorem string_meta_is_internal_error:
  "response_code (outcome (rpc_handler (dispatch_with silent_worker) 0
      ping_string_meta_request)) = Some (JInt (- 32603))
   \<and> workers_after (rpc_handler (dispatch_with silent_worker) 0 ping_string_meta_request) = []
   \<and> outcome (rpc_handler (dispatch_with silent_worker) 0 ping_array_params_request)
       = Inl (AttributeError ''params has no attribute 'get' '')"
proof -
  let ?E = "dispatch_with silent_worker"
  have v: "validate_request ?E ping_string_meta_request
            = Inl (TypeError ''argument after ** must be a mapping'')"
    by (simp add: validate_request_def ping_string_meta_request_def)
  have s: "response_server ?E ping_string_meta_request = Inr None"
    by (simp add: response_server_def ping_string_meta_request_def)
  have b: "rpc_body ?E ping_string_meta_request (initial_call_state ?E 0 ping_string_meta_request)
     = (Inl (TypeError ''argument after ** must be a mapping''),
        span_step ?E ''inputValidation'' None
          (initial_call_state ?E 0 ping_string_meta_request))"
    using v by (simp add: rpc_body_def Let_def)
  have one: "response_code (outcome (rpc_handler ?E 0 ping_string_meta_request))
               = Some (JInt (- 32603))
     \<and> workers_after (rpc_handler ?E 0 ping_string_meta_request) = []"
    using rpc_handler_error [OF b s]
    by (simp add: format_error_def INTERNAL_ERROR_def span_step_frame initial_call_state_frame)
  have v2: "validate_request ?E ping_array_params_request
            = Inl (AttributeError ''params has no attribute 'get' '')"
    by (simp add: validate_request_def ping_array_params_request_def)
  have s2: "response_server ?E ping_array_params_request
            = Inl (AttributeError ''params has no attribute 'get' '')"
    by (simp add: response_server_def ping_array_params_request_def)
  have two: "outcome (rpc_handler ?E 0 ping_array_params_request)
       = Inl (AttributeError ''params has no attribute 'get' '')"
    using v2 s2
    by (simp add: rpc_handler_def rpc_body_def Let_def generate_jsonrpc_response_def)
  from one two show ?thesis by simp
qed

text \<open>
  C5, as stated, fails. A request for the unknown method \<^verbatim>\<open>no/such\<close> that carries no
  \<open>params\<close> is answered with InvalidRequest (-32600), not MethodNotFound (-32601): the
  \<open>_meta\<close> check comes before the method lookup.
\<close>

theorem unknown_method_without_meta_is_invalid_request:
  "response_code (outcome (rpc_handler (dispatch_with silent_worker) 0 unknown_method_request))
     = Some (JInt (- 32600))
   \<and> lookup_handler (JStr ''no/such'') = Inr None
   \<and> METHOD_NOT_FOUND = - 32601"
proof -
  have v: "validate_request (dispatch_with silent_worker) unknown_method_request
     = Inl (CustomError (invalid_meta ''Missing _meta in params''))"
    by (simp add: validate_request_def unknown_method_request_def)
  show ?thesis
    using invalid_meta_response [OF v, of 0]
    by (simp add: lookup_handler_def handlers_map_def METHOD_NOT_FOUND_def)
qed

text \<open>
  C5, amended. For every request that passes the \<open>_meta\<close> validation and whose method is
  none of the non-rejected names (a string outside the table, a rejected method, or a
  missing or non-string scalar method), the dispatcher answers MethodNotFound (-32601)
  with the message \<^verbatim>\<open>Rpc supporting only ... methods\<close> that lists exactly the
  non-rejected names of the table, the three local and the nine forwarded methods, each
  once, in the order of the table; no worker is launched.
\<close>

theorem method_not_found_amended:
  "(validate_request env rdata = Inr (request, cfg)
      \<and> (case request_method request of
            JStr s \<Rightarrow> s \<notin> set supported_methods
          | JList xs \<Rightarrow> False
          | JDict d \<Rightarrow> False
          | _ \<Rightarrow> True)
    \<longrightarrow> response_code (outcome (rpc_handler env n rdata)) = Some (JInt (- 32601))
       \<and> response_message (outcome (rpc_handler env n rdata))
           = Some (JStr (''Rpc supporting only '' @ join_comma supported_methods @ '' methods''))
       \<and> workers_after (rpc_handler env n rdata) = []
       \<and> resolver_calls (rpc_handler env n rdata) = [])
   \<and> supported_methods =
       [''ping'', ''logging/setLevel'', ''notifications/initialized'', ''initialize'',
        ''prompts/get'', ''prompts/list'', ''resources/list'', ''resources/templates/list'',
        ''resources/read'', ''tools/call'', ''tools/list'', ''completion/complete'']
   \<and> distinct supported_methods \<and> length supported_methods = 12
   \<and> set supported_methods
       = fst ` {kv. kv \<in> set handlers_map \<and> \<not> is_unsupported (snd kv)}
   \<and> join_comma supported_methods =
     ''ping, logging/setLevel, notifications/initialized, initialize, prompts/get, prompts/list, resources/list, resources/templates/list, resources/read, tools/call, tools/list, completion/complete''"
proof -
  have "set supported_methods = fst ` {kv. kv \<in> set handlers_map \<and> \<not> is_unsupported (snd kv)}"
    by (auto simp: supported_methods_def)
  moreover have "length supported_methods = 12" by (simp add: supported_methods_eq)
  ultimately show ?thesis
    using method_not_found_response [of env rdata request cfg n] supported_methods_eq
      supported_methods_distinct supported_methods_message
    by blast
qed

theorem method_not_found_amended_witness:
  "response_code (outcome (rpc_handler (dispatch_with silent_worker) 0
      (server_request ''no/such'' ''uvx''))) = Some (JInt (- 32601))
   \<and> response_code (outcome (rpc_handler (dispatch_with silent_worker) 0
      (server_request ''roots/list'' ''uvx''))) = Some (JInt (- 32601))
   \<and> response_message (outcome (rpc_handler (dispatch_with silent_worker) 0
      (server_request ''roots/list'' ''uvx''))) =
     Some (JStr ''Rpc supporting only ping, logging/setLevel, notifications/initialized, initialize, prompts/get, prompts/list, resources/list, resources/templates/list, resources/read, tools/call, tools/list, completion/complete methods'')"
proof -
  let ?cfg = "\<lparr>sc_protocol_version = ''2025-03-26'', sc_jsonrpc = ''2.0'', sc_type = ''stdio'',
          sc_command = ''uvx'', sc_args = Some [''pkg''], sc_cwd = None, sc_stderr = None,
          sc_env = None, sc_version = None\<rparr>"
  have ns: "''no/such'' \<notin> set supported_methods" "''roots/list'' \<notin> set supported_methods"
    by (simp_all add: supported_methods_eq)
  have a: "response_code (outcome (rpc_handler (dispatch_with silent_worker) 0
      (server_request ''no/such'' ''uvx''))) = Some (JInt (- 32601))"
    using method_not_found_amended [of "dispatch_with silent_worker"
        "server_request ''no/such'' ''uvx''"
        "[(''jsonrpc'', JStr ''2.0''), (''id'', JInt 1), (''method'', JStr ''no/such''),
           (''params'', JDict [(''_meta'', JDict [(''server'',
               JDict [(''command'', JStr ''uvx''), (''args'', JList [JStr ''pkg''])])])])]"
        ?cfg 0]
      validate_server_request [of silent_worker "''no/such''" "''uvx''"] ns
    by (simp add: request_method_def)
  have b: "response_code (outcome (rpc_handler (dispatch_with silent_worker) 0
      (server_request ''roots/list'' ''uvx''))) = Some (JInt (- 32601))
   \<and> response_message (outcome (rpc_handler (dispatch_with silent_worker) 0
      (server_request ''roots/list'' ''uvx''))) =
     Some (JStr ''Rpc supporting only ping, logging/setLevel, notifications/initialized, initialize, prompts/get, prompts/list, resources/list, resources/templates/list, resources/read, tools/call, tools/list, completion/complete methods'')"
    using method_not_found_amended [of "dispatch_with silent_worker"
        "server_request ''roots/list'' ''uvx''"
        "[(''jsonrpc'', JStr ''2.0''), (''id'', JInt 1), (''method'', JStr ''roots/list''),
           (''params'', JDict [(''_meta'', JDict [(''server'',
               JDict [(''command'', JStr ''uvx''), (''args'', JList [JStr ''pkg''])])])])]"
        ?cfg 0]
      validate_server_request [of silent_worker "''roots/list''" "''uvx''"] ns
    by (simp add: request_method_def supported_methods_message)
  from a b show ?thesis by simp
qed

end
